theory Spec2Isabelle
  imports Complex_Main
begin

section \<open>JavaScript values used by the services\<close>

text \<open>
  Strings are lists of code units; the model covers the code units 0..255, one
  \<^typ>\<open>char\<close> each, so \<open>length\<close> is the \<open>length\<close> property of the source string.
  Numbers that hold page numbers and epoch milliseconds are integers (below \<open>2^53\<close>
  the source's doubles are exact on them). The numbers of the id allocation are
  natural numbers up to \<open>2^53\<close>, where adding 1 stops being exact.
\<close>

type_synonym error = string

text \<open>\<open>String.prototype.trim\<close>: the white space and line terminators below 256.\<close>

definition isWhiteSpace :: "char \<Rightarrow> bool" where
  "isWhiteSpace c = (of_char c \<in> {9, 10, 11, 12, 13, 32, 160 :: nat})"

definition trim :: "string \<Rightarrow> string" where
  "trim s = rev (dropWhile isWhiteSpace (rev (dropWhile isWhiteSpace s)))"

text \<open>\<open>String.prototype.toLowerCase\<close> on the code units below 256: A-Z and the
  accented capitals 192..222 (without the multiplication sign 215) move up by 32.\<close>

definition toLowerCase_unit :: "char \<Rightarrow> char" where
  "toLowerCase_unit c =
     (let n = (of_char c :: nat)
      in if (65 \<le> n \<and> n \<le> 90) \<or> (192 \<le> n \<and> n \<le> 222 \<and> n \<noteq> 215)
         then char_of (n + 32) else c)"

definition toLowerCase :: "string \<Rightarrow> string" where
  "toLowerCase s = map toLowerCase_unit s"

text \<open>\<open>normalize\<close> of contacts.ts and of tasks.ts (the same body in both).\<close>

definition normalize :: "string \<Rightarrow> string" where
  "normalize s = toLowerCase s"

text \<open>\<open>String.prototype.includes\<close>: the argument occurs at some position.\<close>

fun includes_js :: "string \<Rightarrow> string \<Rightarrow> bool" where
  "includes_js [] q = (q = [])"
| "includes_js (c # cs) q = (take (length q) (c # cs) = q \<or> includes_js cs q)"

text \<open>\<open>String(num)\<close> for a natural number and for an integer: decimal digits.\<close>

definition digit_unit :: "nat \<Rightarrow> char" where
  "digit_unit d = ''0123456789'' ! d"

function String_nat :: "nat \<Rightarrow> string" where
  "String_nat n = (if n < 10 then [digit_unit n] else String_nat (n div 10) @ [digit_unit (n mod 10)])"
  by pat_completeness auto
termination
  by (relation "measure (\<lambda>n. n)") auto

declare String_nat.simps [simp del]

definition String_int :: "int \<Rightarrow> string" where
  "String_int i = (if i < 0 then CHR ''-'' # String_nat (nat (- i)) else String_nat (nat i))"

text \<open>
  \<open>Number(s) || 0\<close> as the id allocation uses it. The model is exact on the strings
  of decimal digits that denote a number up to \<open>2^53\<close> (the suffix of every id this
  program writes is such a string): there it is the number the digits denote, a double
  without rounding. It is also exact on the empty string and on a string that is no
  numeric literal, which give 0 (\<open>NaN || 0\<close>). It is not a model of JavaScript on
  longer digit strings, which round, nor on the other numeric literals (signs,
  fractions, exponents, radix prefixes, \<open>Infinity\<close>, surrounding white space), which
  it reads as 0 where JavaScript reads a number: what is proved about ids is stated for
  stored ids inside the exact range.
\<close>

definition isDigit :: "char \<Rightarrow> bool" where
  "isDigit c = (48 \<le> (of_char c :: nat) \<and> (of_char c :: nat) \<le> 57)"

definition digitsValue :: "string \<Rightarrow> nat" where
  "digitsValue s = foldl (\<lambda>a c. 10 * a + ((of_char c :: nat) - 48)) 0 s"

definition Number_or_0 :: "string \<Rightarrow> nat" where
  "Number_or_0 s = (if list_all isDigit s then digitsValue s else 0)"

text \<open>
  \<open>m + 1\<close> on doubles, for an integer \<open>m\<close> up to \<open>2^53\<close>: exact below \<open>2^53\<close>, while
  \<open>2^53 + 1\<close> is no double and rounds, half to even, back to \<open>2^53\<close>. \<open>String(num)\<close>
  of such a number is its decimal digits.
\<close>

definition double_plus_1 :: "nat \<Rightarrow> nat" where
  "double_plus_1 m = (if m < 2 ^ 53 then m + 1 else m)"

text \<open>\<open>pad\<close> (contacts.ts and tasks.ts, the same loop): zeros in front up to the length \<open>sz\<close> (the source's \<open>size\<close>).\<close>

function pad_loop :: "string \<Rightarrow> nat \<Rightarrow> string" where
  "pad_loop s sz = (if length s < sz then pad_loop (CHR ''0'' # s) sz else s)"
  by pat_completeness auto
termination
  by (relation "measure (\<lambda>(s, sz). sz - length s)") auto

declare pad_loop.simps [simp del]

definition pad :: "nat \<Rightarrow> nat \<Rightarrow> string" where
  "pad num sz = pad_loop (String_nat num) sz"

text \<open>\<open>Array.prototype.slice(start, stop)\<close>: a negative index counts from the end.\<close>

definition js_slice :: "'a list \<Rightarrow> int \<Rightarrow> int \<Rightarrow> 'a list" where
  "js_slice xs start stop =
     (let len = int (length xs);
          k = (if start < 0 then max (len + start) 0 else min start len);
          final = (if stop < 0 then max (len + stop) 0 else min stop len)
      in take (nat (final - k)) (drop (nat k) xs))"

text \<open>\<open>Array.prototype.findIndex\<close>: the first index whose element passes, or -1.\<close>

fun findIndex :: "('a \<Rightarrow> bool) \<Rightarrow> 'a list \<Rightarrow> int" where
  "findIndex P [] = - 1"
| "findIndex P (x # xs) =
     (if P x then 0 else (let r = findIndex P xs in if r = - 1 then - 1 else r + 1))"

text \<open>\<open>splice(idx, 1)\<close>: the element at \<open>idx\<close> is removed.\<close>

definition splice1 :: "nat \<Rightarrow> 'a list \<Rightarrow> 'a list" where
  "splice1 idx xs = take idx xs @ drop (Suc idx) xs"

text \<open>
  \<open>Array.prototype.sort(compare)\<close>. ECMAScript fixes the result for a consistent
  comparator: the stable arrangement in which no element is followed by one the
  comparator puts before it. The model is the stable insertion sort, which returns that
  arrangement.
\<close>

fun js_insert :: "('a \<Rightarrow> 'a \<Rightarrow> int) \<Rightarrow> 'a \<Rightarrow> 'a list \<Rightarrow> 'a list" where
  "js_insert cmp x [] = [x]"
| "js_insert cmp x (y # ys) = (if cmp x y \<le> 0 then x # y # ys else y # js_insert cmp x ys)"

definition js_sort :: "('a \<Rightarrow> 'a \<Rightarrow> int) \<Rightarrow> 'a list \<Rightarrow> 'a list" where
  "js_sort cmp xs = foldr (js_insert cmp) xs []"

text \<open>The values a record field read \<open>a[sortBy]\<close> can give, and \<open>String(v)\<close> of them.\<close>

datatype jsval = JNum int | JStr string | JArr "string list" | JBool bool | JUndefined

fun join_comma :: "string list \<Rightarrow> string" where
  "join_comma [] = []"
| "join_comma [s] = s"
| "join_comma (s # t # ss) = s @ '','' @ join_comma (t # ss)"

fun String_js :: "jsval \<Rightarrow> string" where
  "String_js (JNum n) = String_int n"
| "String_js (JStr s) = s"
| "String_js (JArr ss) = join_comma ss"
| "String_js (JBool b) = (if b then ''true'' else ''false'')"
| "String_js JUndefined = ''undefined''"

datatype SortOrder = asc | desc

text \<open>
  The comparator of \<open>listContacts\<close> and of \<open>listTasks\<close> (the same arrow function in
  both) on the two field values. \<open>String.prototype.localeCompare\<close> belongs to the
  platform and is the parameter \<open>lc\<close>.
\<close>

definition sortComparator :: "(string \<Rightarrow> string \<Rightarrow> int) \<Rightarrow> SortOrder \<Rightarrow> jsval \<Rightarrow> jsval \<Rightarrow> int" where
  "sortComparator lc sortOrder av bv =
     (let cmp = (case (av, bv) of
                   (JNum a, JNum b) \<Rightarrow> a - b
                 | _ \<Rightarrow> lc (String_js av) (String_js bv))
      in if sortOrder = asc then cmp else - cmp)"

section \<open>Data model\<close>

record Contact =
  id :: string
  firstName :: string
  lastName :: string
  email :: string
  phone :: string
  company :: string
  city :: string
  state :: string
  tags :: "string list"
  createdAt :: int
  lastActivityAt :: int

datatype ContactKey =
  CK_id | CK_firstName | CK_lastName | CK_email | CK_phone | CK_company | CK_city
  | CK_state | CK_tags | CK_createdAt | CK_lastActivityAt

fun contactField :: "Contact \<Rightarrow> ContactKey \<Rightarrow> jsval" where
  "contactField c CK_id = JStr (Contact.id c)"
| "contactField c CK_firstName = JStr (Contact.firstName c)"
| "contactField c CK_lastName = JStr (Contact.lastName c)"
| "contactField c CK_email = JStr (Contact.email c)"
| "contactField c CK_phone = JStr (Contact.phone c)"
| "contactField c CK_company = JStr (Contact.company c)"
| "contactField c CK_city = JStr (Contact.city c)"
| "contactField c CK_state = JStr (Contact.state c)"
| "contactField c CK_tags = JArr (Contact.tags c)"
| "contactField c CK_createdAt = JNum (Contact.createdAt c)"
| "contactField c CK_lastActivityAt = JNum (Contact.lastActivityAt c)"

record ListParams =
  q :: "string option"
  sortBy :: "ContactKey option"
  sortOrder :: "SortOrder option"
  page :: "int option"
  pageSize :: "int option"

record ListResult =
  data :: "Contact list"
  total :: int
  page :: int
  pageSize :: int
  hasNext :: bool

record ContactCreateInput =
  firstName :: string
  lastName :: string
  email :: string
  phone :: "string option"
  company :: "string option"
  city :: "string option"
  state :: "string option"
  tags :: "string list option"

datatype Priority = low | medium | high

fun Priority_string :: "Priority \<Rightarrow> string" where
  "Priority_string low = ''low''"
| "Priority_string medium = ''medium''"
| "Priority_string high = ''high''"

record Task =
  id :: string
  contactId :: string
  title :: string
  notes' :: "string option"
  dueDate :: "int option"
  completed :: bool
  priority :: Priority
  createdAt :: int
  updatedAt :: int

datatype TaskKey =
  TK_id | TK_contactId | TK_title | TK_notes | TK_dueDate | TK_completed | TK_priority
  | TK_createdAt | TK_updatedAt

fun taskField :: "Task \<Rightarrow> TaskKey \<Rightarrow> jsval" where
  "taskField t TK_id = JStr (Task.id t)"
| "taskField t TK_contactId = JStr (Task.contactId t)"
| "taskField t TK_title = JStr (Task.title t)"
| "taskField t TK_notes = (case Task.notes' t of Some s \<Rightarrow> JStr s | None \<Rightarrow> JUndefined)"
| "taskField t TK_dueDate = (case Task.dueDate t of Some d \<Rightarrow> JNum d | None \<Rightarrow> JUndefined)"
| "taskField t TK_completed = JBool (Task.completed t)"
| "taskField t TK_priority = JStr (Priority_string (Task.priority t))"
| "taskField t TK_createdAt = JNum (Task.createdAt t)"
| "taskField t TK_updatedAt = JNum (Task.updatedAt t)"

record TaskListParams =
  contactId :: "string option"
  q :: "string option"
  sortBy :: "TaskKey option"
  sortOrder :: "SortOrder option"
  page :: "int option"
  pageSize :: "int option"
  completed :: "bool option"

record TaskListResult =
  data :: "Task list"
  total :: int
  page :: int
  pageSize :: int
  hasNext :: bool

record TaskCreateInput =
  contactId :: string
  title :: string
  notes' :: "string option"
  dueDate :: "int option"
  priority :: "Priority option"

record TaskUpdateInput =
  title :: "string option"
  notes' :: "string option"
  dueDate :: "int option"
  completed :: "bool option"
  priority :: "Priority option"

section \<open>The process state\<close>

text \<open>
  The two module-level caches, the two JSON documents under \<open>data/\<close> (\<open>None\<close>: the
  file does not exist), and what the environment will answer: the values the coming
  calls of \<open>Math.random()\<close> return (each in \<open>[0, 1)\<close>) and the values the coming calls
  of \<open>Date.now()\<close> return. \<open>JSON.stringify\<close> followed by \<open>JSON.parse\<close> gives back the
  records written, and the file system does not fail. Each operation runs to its end
  before the next starts.
\<close>

record world =
  CONTACTS_CACHE :: "Contact list option"
  TASKS_CACHE :: "Task list option"
  contacts_file :: "Contact list option"
  tasks_file :: "Task list option"
  random_draws :: "nat \<Rightarrow> real"
  clock_reads :: "nat \<Rightarrow> int"

definition Math_random :: "world \<Rightarrow> real \<times> world" where
  "Math_random w = (random_draws w 0, w\<lparr>random_draws := (\<lambda>n. random_draws w (Suc n))\<rparr>)"

definition Date_now :: "world \<Rightarrow> int \<times> world" where
  "Date_now w = (clock_reads w 0, w\<lparr>clock_reads := (\<lambda>n. clock_reads w (Suc n))\<rparr>)"

section \<open>store.ts\<close>

text \<open>\<open>readJson\<close> gives the parsed document, or \<open>null\<close> when the file does not exist;
  \<open>writeJson\<close> overwrites the file with the whole document.\<close>

definition readJson_contacts :: "world \<Rightarrow> Contact list option" where
  "readJson_contacts w = contacts_file w"

definition writeJson_contacts :: "Contact list \<Rightarrow> world \<Rightarrow> world" where
  "writeJson_contacts doc w = w\<lparr>contacts_file := Some doc\<rparr>"

definition readJson_tasks :: "world \<Rightarrow> Task list option" where
  "readJson_tasks w = tasks_file w"

definition writeJson_tasks :: "Task list \<Rightarrow> world \<Rightarrow> world" where
  "writeJson_tasks doc w = w\<lparr>tasks_file := Some doc\<rparr>"

section \<open>contacts.ts\<close>

text \<open>\<open>randomChoice(arr)\<close> on the value \<open>r\<close> that \<open>Math.random()\<close> returned; with
  \<open>0 \<le> r < 1\<close> the index is inside the array.\<close>

definition randomChoice :: "'a list \<Rightarrow> real \<Rightarrow> 'a" where
  "randomChoice arr r = arr ! nat \<lfloor>r * real (length arr)\<rfloor>"

definition firstNames :: "string list" where
  "firstNames = [''Avery'', ''Jordan'', ''Taylor'', ''Casey'', ''Riley'', ''Skyler'', ''Alex'',
     ''Morgan'', ''Jamie'', ''Quinn'']"

definition lastNames :: "string list" where
  "lastNames = [''Chen'', ''Singh'', ''Garcia'', ''Patel'', ''Kim'', ''Nguyen'', ''Lopez'',
     ''Brown'', ''Khan'', ''Ivanov'']"

definition companies :: "string list" where
  "companies = [''Lumina Labs'', ''Vertex Systems'', ''NovaWorks'', ''BluePeak'', ''Quantica'',
     ''Hyperion'', ''Apexio'', ''Terranova'', ''Orchid'', ''Zennic'']"

definition cities :: "string list" where
  "cities = [''San Francisco'', ''New York'', ''Austin'', ''Seattle'', ''Chicago'', ''Toronto'',
     ''London'', ''Berlin'', ''Sydney'', ''Tokyo'']"

definition states :: "string list" where
  "states = [''CA'', ''NY'', ''TX'', ''WA'', ''IL'', ''ON'', ''ENG'', ''BE'', ''NSW'', ''TK'']"

definition tagsPool :: "string list" where
  "tagsPool = [''vip'', ''lead'', ''customer'', ''partner'', ''prospect'', ''churn-risk'', ''beta'']"

text \<open>
  The loop of \<open>seedContacts\<close>, from \<open>i\<close> to \<open>count\<close>, on the values \<open>rs\<close> that the coming
  calls of \<open>Math.random()\<close> return; it gives back the values it has not used.
  \<open>states[cities.indexOf(city)]\<close> is defined for every city of the list, and the
  \<open>randomChoice(states)\<close> behind \<open>??\<close> runs only when it is not. A \<open>Set\<close> of two
  tags holds one of them when they are equal.
\<close>

function seedContacts_loop ::
  "nat \<Rightarrow> nat \<Rightarrow> int \<Rightarrow> (nat \<Rightarrow> real) \<Rightarrow> Contact list \<Rightarrow> Contact list \<times> (nat \<Rightarrow> real)" where
  "seedContacts_loop i count now rs out =
     (if i \<le> count then
        let firstName = randomChoice firstNames (rs 0);
            lastName = randomChoice lastNames (rs 1);
            company = randomChoice companies (rs 2);
            city = randomChoice cities (rs 3);
            idx = findIndex (\<lambda>x. x = city) cities;
            found = (0 \<le> idx \<and> idx < int (length states));
            state = (if found then states ! nat idx else randomChoice states (rs 4));
            rs1 = (if found then (\<lambda>n. rs (n + 4)) else (\<lambda>n. rs (n + 5)));
            id' = ''C'' @ pad i 5;
            email = toLowerCase firstName @ ''.'' @ toLowerCase lastName @ String_nat i @ ''@''
                    @ filter (\<lambda>c. \<not> isWhiteSpace c) (toLowerCase company) @ ''.com'';
            phone = ''+1-('' @ String_nat (100 + i mod 900) @ '')-'' @ pad (i mod 1000) 3 @ ''-''
                    @ pad ((i * 7) mod 10000) 4;
            createdAt = now - \<lfloor>rs1 0 * 1000 * 60 * 60 * 24 * 365\<rfloor>;
            lastActivityAt = createdAt + \<lfloor>rs1 1 * real_of_int (now - createdAt)\<rfloor>;
            tag1 = randomChoice tagsPool (rs1 2);
            tag2 = randomChoice tagsPool (rs1 3);
            tags = take 2 (remdups_adj [tag1, tag2]);
            contact = \<lparr>Contact.id = id', firstName = firstName, lastName = lastName,
                       email = email, phone = phone, company = company, city = city,
                       state = state, tags = tags, createdAt = createdAt,
                       lastActivityAt = lastActivityAt\<rparr>
        in seedContacts_loop (Suc i) count now (\<lambda>n. rs1 (n + 4)) (out @ [contact])
      else (out, rs))"
  by pat_completeness auto
termination
  by (relation "measure (\<lambda>(i, count, now, rs, out). Suc count - i)") auto

declare seedContacts_loop.simps [simp del]

definition seedContacts :: "nat \<Rightarrow> world \<Rightarrow> Contact list \<times> world" where
  "seedContacts count w =
     (let (now, w1) = Date_now w;
          (out, rs) = seedContacts_loop 1 count now (random_draws w1) []
      in (out, w1\<lparr>random_draws := rs\<rparr>))"

definition ensureSeeded_contacts :: "world \<Rightarrow> world" where
  "ensureSeeded_contacts w =
     (case CONTACTS_CACHE w of
        Some cache \<Rightarrow> w
      | None \<Rightarrow>
          (case readJson_contacts w of
             Some (c # cs) \<Rightarrow> w\<lparr>CONTACTS_CACHE := Some (c # cs)\<rparr>
           | _ \<Rightarrow>
               (let (seed, w1) = seedContacts 12000 w;
                    w2 = w1\<lparr>CONTACTS_CACHE := Some seed\<rparr>
                in writeJson_contacts seed w2)))"

text \<open>\<open>CONTACTS_CACHE ?? []\<close>.\<close>

definition contacts_of :: "world \<Rightarrow> Contact list" where
  "contacts_of w = (case CONTACTS_CACHE w of Some cache \<Rightarrow> cache | None \<Rightarrow> [])"

text \<open>The callback of \<open>filter\<close> in \<open>listContacts\<close>, on the normalised query \<open>qn\<close>.\<close>

definition contactFilter :: "string \<Rightarrow> Contact \<Rightarrow> bool" where
  "contactFilter qn c =
     (if qn = [] then True
      else includes_js (normalize (Contact.firstName c @ '' '' @ Contact.lastName c)) qn
         \<or> includes_js (normalize (Contact.email c)) qn
         \<or> includes_js (normalize (Contact.company c)) qn
         \<or> includes_js (normalize (Contact.city c)) qn
         \<or> includes_js (normalize (Contact.state c)) qn
         \<or> list_ex (\<lambda>t. includes_js (normalize t) qn) (Contact.tags c))"

definition listContacts ::
  "(string \<Rightarrow> string \<Rightarrow> int) \<Rightarrow> ListParams \<Rightarrow> world \<Rightarrow> (error + ListResult) \<times> world" where
  "listContacts lc params w =
     (let w1 = ensureSeeded_contacts w;
          q = (case ListParams.q params of Some v \<Rightarrow> v | None \<Rightarrow> []);
          sortBy = (case ListParams.sortBy params of Some v \<Rightarrow> v | None \<Rightarrow> CK_lastActivityAt);
          sortOrder = (case ListParams.sortOrder params of Some v \<Rightarrow> v | None \<Rightarrow> desc);
          page = (case ListParams.page params of Some v \<Rightarrow> v | None \<Rightarrow> 1);
          pageSize = (case ListParams.pageSize params of Some v \<Rightarrow> v | None \<Rightarrow> 50);
          (latency, w2) = Math_random w1;
          (roulette, w3) = Math_random w2
      in if roulette < 0.05 then (Inl ''TransientError: simulated network failure'', w3)
         else
           let qn = normalize q;
               filtered = filter (contactFilter qn) (contacts_of w3);
               sorted = js_sort (\<lambda>a b. sortComparator lc sortOrder
                                 (contactField a sortBy) (contactField b sortBy)) filtered;
               start = (page - 1) * pageSize;
               data = js_slice sorted start (start + pageSize);
               total = int (length filtered);
               hasNext = (start + pageSize < total)
           in (Inr \<lparr>ListResult.data = data, total = total, page = page,
                     pageSize = pageSize, hasNext = hasNext\<rparr>, w3))"

definition getContact :: "string \<Rightarrow> world \<Rightarrow> (error + Contact) \<times> world" where
  "getContact id' w =
     (let w1 = ensureSeeded_contacts w;
          (latency, w2) = Math_random w1;
          (roulette, w3) = Math_random w2
      in if roulette < 0.05 then (Inl ''TransientError: simulated network failure'', w3)
         else (case find (\<lambda>x. Contact.id x = id') (contacts_of w3) of
                 None \<Rightarrow> (Inl ''NotFoundError: contact not found'', w3)
               | Some c \<Rightarrow> (Inr c, w3)))"

text \<open>
  \<open>nextContactId\<close>: the \<open>reduce\<close> with \<open>Math.max\<close> over \<open>Number(c.id.slice(1)) || 0\<close>
  from 0, then \<open>+ 1\<close> on doubles, then \<open>pad(max, 5)\<close>. \<open>createTask\<close> has the same
  expression inline.
\<close>

definition nextContactId :: "Contact list \<Rightarrow> string" where
  "nextContactId contacts =
     (let mx = double_plus_1
                 (foldl (\<lambda>m c. max m (Number_or_0 (drop 1 (Contact.id c)))) 0 contacts)
      in ''C'' @ pad mx 5)"

definition createContact :: "ContactCreateInput \<Rightarrow> world \<Rightarrow> (error + Contact) \<times> world" where
  "createContact input w =
     (let w1 = ensureSeeded_contacts w;
          firstName = trim (ContactCreateInput.firstName input);
          lastName = trim (ContactCreateInput.lastName input);
          email = trim (ContactCreateInput.email input)
      in if firstName = [] \<or> lastName = [] \<or> email = []
         then (Inl ''ValidationError: firstName, lastName, email required'', w1)
         else if list_ex (\<lambda>c. toLowerCase (Contact.email c) = toLowerCase email) (contacts_of w1)
         then (Inl ''ValidationError: email already exists'', w1)
         else
           let (now, w2) = Date_now w1;
               contact = \<lparr>Contact.id = nextContactId (contacts_of w2),
                          firstName = firstName, lastName = lastName, email = email,
                          phone = (case ContactCreateInput.phone input of Some v \<Rightarrow> v | None \<Rightarrow> []),
                          company = (case ContactCreateInput.company input of Some v \<Rightarrow> v | None \<Rightarrow> []),
                          city = (case ContactCreateInput.city input of Some v \<Rightarrow> v | None \<Rightarrow> []),
                          state = (case ContactCreateInput.state input of Some v \<Rightarrow> v | None \<Rightarrow> []),
                          tags = (case ContactCreateInput.tags input of Some v \<Rightarrow> v | None \<Rightarrow> []),
                          createdAt = now, lastActivityAt = now\<rparr>;
               cache = contact # contacts_of w2;
               w3 = w2\<lparr>CONTACTS_CACHE := Some cache\<rparr>
           in (Inr contact, writeJson_contacts cache w3))"

text \<open>
  \<open>deleteContact\<close>. The cascade reads the task document from the file, filters it and
  writes it back; \<open>TASKS_CACHE\<close> is not part of it. Its \<open>catch\<close> runs only when the file
  system fails.
\<close>

definition deleteContact :: "string \<Rightarrow> world \<Rightarrow> (error + bool) \<times> world" where
  "deleteContact id' w =
     (let w1 = ensureSeeded_contacts w;
          idx = findIndex (\<lambda>c. Contact.id c = id') (contacts_of w1)
      in if idx = - 1 then (Inl ''NotFoundError: contact not found'', w1)
         else
           let cache = splice1 (nat idx) (contacts_of w1);
               w2 = w1\<lparr>CONTACTS_CACHE := Some cache\<rparr>;
               w3 = writeJson_contacts cache w2;
               tasks = (case readJson_tasks w3 of Some ts \<Rightarrow> ts | None \<Rightarrow> []);
               filtered = filter (\<lambda>t. Task.contactId t \<noteq> id') tasks
           in (Inr True, writeJson_tasks filtered w3))"

section \<open>tasks.ts\<close>

definition seedTitles :: "string list" where
  "seedTitles = [''Follow up email'', ''Schedule demo'', ''Prepare quote'', ''Update contract'',
     ''Check-in call'', ''Share roadmap'', ''Collect feedback'', ''Onboarding session'',
     ''Invoice review'', ''Bug triage'']"

definition seedNotes :: "string list" where
  "seedNotes = [''Mention new feature release.'', ''Include discount details.'',
     ''Ask for availability next week.'', ''Confirm billing address.'', ''Record pain points.'',
     ''Add training materials.'']"

definition prios :: "Priority list" where
  "prios = [low, medium, high]"

function seedTasks_loop ::
  "nat \<Rightarrow> nat \<Rightarrow> int \<Rightarrow> (nat \<Rightarrow> real) \<Rightarrow> Task list \<Rightarrow> Task list \<times> (nat \<Rightarrow> real)" where
  "seedTasks_loop i count now rs out =
     (if i \<le> count then
        let createdAt = now - \<lfloor>rs 0 * 1000 * 60 * 60 * 24 * 120\<rfloor>;
            updatedAt = createdAt + \<lfloor>rs 1 * real_of_int (now - createdAt)\<rfloor>;
            task = \<lparr>Task.id = ''T'' @ pad i 5,
                    contactId = ''C'' @ pad ((i * 13) mod 5000) 5,
                    title = seedTitles ! (i mod length seedTitles),
                    notes' = Some (seedNotes ! (i mod length seedNotes)),
                    dueDate = Some (createdAt + \<lfloor>rs 2 * 1000 * 60 * 60 * 24 * 30\<rfloor>),
                    completed = (rs 3 < 0.35),
                    priority = prios ! (i mod length prios),
                    createdAt = createdAt, updatedAt = updatedAt\<rparr>
        in seedTasks_loop (Suc i) count now (\<lambda>n. rs (n + 4)) (out @ [task])
      else (out, rs))"
  by pat_completeness auto
termination
  by (relation "measure (\<lambda>(i, count, now, rs, out). Suc count - i)") auto

declare seedTasks_loop.simps [simp del]

definition seedTasks :: "nat \<Rightarrow> world \<Rightarrow> Task list \<times> world" where
  "seedTasks count w =
     (let (now, w1) = Date_now w;
          (out, rs) = seedTasks_loop 1 count now (random_draws w1) []
      in (out, w1\<lparr>random_draws := rs\<rparr>))"

definition ensureSeeded_tasks :: "world \<Rightarrow> world" where
  "ensureSeeded_tasks w =
     (case TASKS_CACHE w of
        Some cache \<Rightarrow> w
      | None \<Rightarrow>
          (case readJson_tasks w of
             Some existing \<Rightarrow> w\<lparr>TASKS_CACHE := Some existing\<rparr>
           | None \<Rightarrow>
               (let (seed, w1) = seedTasks 0 w;
                    w2 = w1\<lparr>TASKS_CACHE := Some seed\<rparr>
                in writeJson_tasks seed w2)))"

text \<open>\<open>TASKS_CACHE ?? []\<close>.\<close>

definition tasks_of :: "world \<Rightarrow> Task list" where
  "tasks_of w = (case TASKS_CACHE w of Some cache \<Rightarrow> cache | None \<Rightarrow> [])"

text \<open>The callback of \<open>filter\<close> in \<open>listTasks\<close>. An empty \<open>contactId\<close> is falsy, and so is
  an empty \<open>notes\<close>.\<close>

definition taskFilter :: "string option \<Rightarrow> bool option \<Rightarrow> string \<Rightarrow> Task \<Rightarrow> bool" where
  "taskFilter contactId' completed' qn t =
     (if (case contactId' of Some cid \<Rightarrow> cid \<noteq> [] \<and> Task.contactId t \<noteq> cid | None \<Rightarrow> False)
      then False
      else if (case completed' of Some b \<Rightarrow> Task.completed t \<noteq> b | None \<Rightarrow> False)
      then False
      else if qn = [] then True
      else includes_js (normalize (Task.title t)) qn
         \<or> (case Task.notes' t of
               Some n \<Rightarrow> (if n \<noteq> [] then includes_js (normalize n) qn else False)
             | None \<Rightarrow> False))"

definition listTasks ::
  "(string \<Rightarrow> string \<Rightarrow> int) \<Rightarrow> TaskListParams \<Rightarrow> world \<Rightarrow> (error + TaskListResult) \<times> world" where
  "listTasks lc params w =
     (let w1 = ensureSeeded_tasks w;
          contactId = TaskListParams.contactId params;
          q = (case TaskListParams.q params of Some v \<Rightarrow> v | None \<Rightarrow> []);
          sortBy = (case TaskListParams.sortBy params of Some v \<Rightarrow> v | None \<Rightarrow> TK_updatedAt);
          sortOrder = (case TaskListParams.sortOrder params of Some v \<Rightarrow> v | None \<Rightarrow> desc);
          page = (case TaskListParams.page params of Some v \<Rightarrow> v | None \<Rightarrow> 1);
          pageSize = (case TaskListParams.pageSize params of Some v \<Rightarrow> v | None \<Rightarrow> 50);
          completed = TaskListParams.completed params;
          (latency, w2) = Math_random w1;
          (roulette, w3) = Math_random w2
      in if roulette < 0.05 then (Inl ''TransientError: simulated network failure'', w3)
         else
           let qn = normalize q;
               filtered = filter (taskFilter contactId completed qn) (tasks_of w3);
               sorted = js_sort (\<lambda>a b. sortComparator lc sortOrder
                                 (taskField a sortBy) (taskField b sortBy)) filtered;
               start = (page - 1) * pageSize;
               data = js_slice sorted start (start + pageSize);
               total = int (length filtered);
               hasNext = (start + pageSize < total)
           in (Inr \<lparr>TaskListResult.data = data, total = total, page = page,
                     pageSize = pageSize, hasNext = hasNext\<rparr>, w3))"

text \<open>
  \<open>TASKS_CACHE!\<close> is read after \<open>ensureSeeded\<close> has filled the cache; were it \<open>null\<close>
  the method call on it would raise a \<open>TypeError\<close>, which is the last branch of the
  three operations below.
\<close>

definition createTask :: "TaskCreateInput \<Rightarrow> world \<Rightarrow> (error + Task) \<times> world" where
  "createTask input w =
     (let w1 = ensureSeeded_tasks w;
          (found, w2) = getContact (TaskCreateInput.contactId input) w1
      in case found of
           Inl e \<Rightarrow> (Inl ''ValidationError: contact does not exist'', w2)
         | Inr c \<Rightarrow>
             let title = trim (TaskCreateInput.title input)
             in if title = [] then (Inl ''ValidationError: title required'', w2)
                else if length title > 120 then (Inl ''ValidationError: title too long'', w2)
                else
                  let (latency, w3) = Math_random w2;
                      (roulette, w4) = Math_random w3
                  in if roulette < 0.12
                     then (Inl ''TransientError: simulate mutation failure'', w4)
                     else
                       let (now, w5) = Date_now w4;
                           maxNum = double_plus_1
                                      (foldl (\<lambda>m t. max m (Number_or_0 (drop 1 (Task.id t)))) 0
                                         (tasks_of w5));
                           id' = ''T'' @ pad maxNum 5;
                           task = \<lparr>Task.id = id',
                                   contactId = TaskCreateInput.contactId input,
                                   title = title,
                                   notes' = TaskCreateInput.notes' input,
                                   dueDate = TaskCreateInput.dueDate input,
                                   completed = False,
                                   priority = (case TaskCreateInput.priority input of
                                                 Some v \<Rightarrow> v | None \<Rightarrow> medium),
                                   createdAt = now, updatedAt = now\<rparr>
                       in case TASKS_CACHE w5 of
                            Some cache \<Rightarrow>
                              (Inr task,
                               writeJson_tasks (cache @ [task])
                                 (w5\<lparr>TASKS_CACHE := Some (cache @ [task])\<rparr>))
                          | None \<Rightarrow> (Inl ''TypeError'', w5))"

definition updateTask :: "string \<Rightarrow> TaskUpdateInput \<Rightarrow> world \<Rightarrow> (error + Task) \<times> world" where
  "updateTask id' updates w =
     (let w1 = ensureSeeded_tasks w;
          (latency, w2) = Math_random w1;
          (roulette, w3) = Math_random w2
      in if roulette < 0.12 then (Inl ''TransientError: simulate mutation failure'', w3)
         else
           case TASKS_CACHE w3 of
             None \<Rightarrow> (Inl ''TypeError'', w3)
           | Some cache \<Rightarrow>
               let idx = findIndex (\<lambda>t. Task.id t = id') cache
               in if idx = - 1 then (Inl ''NotFoundError: task not found'', w3)
                  else
                    let prev = cache ! nat idx;
                        (now, w4) = Date_now w3;
                        next = prev\<lparr>
                          Task.title := (case TaskUpdateInput.title updates of
                                      Some v \<Rightarrow> (if trim v \<noteq> [] then trim v else Task.title prev)
                                    | None \<Rightarrow> Task.title prev),
                          Task.notes' := (case TaskUpdateInput.notes' updates of
                                      Some v \<Rightarrow> Some v | None \<Rightarrow> Task.notes' prev),
                          Task.dueDate := (case TaskUpdateInput.dueDate updates of
                                      Some v \<Rightarrow> Some v | None \<Rightarrow> Task.dueDate prev),
                          Task.completed := (case TaskUpdateInput.completed updates of
                                      Some v \<Rightarrow> v | None \<Rightarrow> Task.completed prev),
                          Task.priority := (case TaskUpdateInput.priority updates of
                                      Some v \<Rightarrow> v | None \<Rightarrow> Task.priority prev),
                          Task.updatedAt := now\<rparr>;
                        cache' = cache[nat idx := next]
                    in (Inr next, writeJson_tasks cache' (w4\<lparr>TASKS_CACHE := Some cache'\<rparr>)))"

definition deleteTask :: "string \<Rightarrow> world \<Rightarrow> (error + bool) \<times> world" where
  "deleteTask id' w =
     (let w1 = ensureSeeded_tasks w;
          (latency, w2) = Math_random w1;
          (roulette, w3) = Math_random w2
      in if roulette < 0.12 then (Inl ''TransientError: simulate mutation failure'', w3)
         else
           case TASKS_CACHE w3 of
             None \<Rightarrow> (Inl ''TypeError'', w3)
           | Some cache \<Rightarrow>
               let idx = findIndex (\<lambda>t. Task.id t = id') cache
               in if idx = - 1 then (Inl ''NotFoundError: task not found'', w3)
                  else
                    let cache' = splice1 (nat idx) cache
                    in (Inr True, writeJson_tasks cache' (w3\<lparr>TASKS_CACHE := Some cache'\<rparr>)))"

section \<open>Example data\<close>

text \<open>
  A comparison of strings by their code units, as one instance of the platform's
  \<open>localeCompare\<close> for the examples, and a small process state: three contacts and two
  tasks, in the caches and in the files.
\<close>

fun codeUnitCompare :: "string \<Rightarrow> string \<Rightarrow> int" where
  "codeUnitCompare [] [] = 0"
| "codeUnitCompare [] (b # bs) = - 1"
| "codeUnitCompare (a # as) [] = 1"
| "codeUnitCompare (a # as) (b # bs) =
     (if (of_char a :: nat) < of_char b then - 1
      else if (of_char b :: nat) < of_char a then 1
      else codeUnitCompare as bs)"

definition contact_ada :: Contact where
  "contact_ada = \<lparr>Contact.id = ''C00001'', firstName = ''Ada'', lastName = ''Lovelace'',
     email = ''ada@x.com'', phone = [], company = ''Engines'', city = ''London'',
     state = ''ENG'', tags = [''vip''], createdAt = 1000, lastActivityAt = 1500\<rparr>"

definition contact_bob :: Contact where
  "contact_bob = \<lparr>Contact.id = ''C00002'', firstName = ''Bob'', lastName = ''Stone'',
     email = ''bob@y.com'', phone = [], company = ''Quarry'', city = ''Austin'',
     state = ''TX'', tags = [], createdAt = 2000, lastActivityAt = 3000\<rparr>"

definition contact_cy :: Contact where
  "contact_cy = \<lparr>Contact.id = ''C00003'', firstName = ''Cy'', lastName = ''Young'',
     email = ''cy@z.com'', phone = [], company = ''Mound'', city = ''Boston'',
     state = ''MA'', tags = [''lead'', ''beta''], createdAt = 2500, lastActivityAt = 2600\<rparr>"

definition task_call :: Task where
  "task_call = \<lparr>Task.id = ''T00001'', contactId = ''C00001'', title = ''Call'',
     notes' = None, dueDate = None, completed = False, priority = medium,
     createdAt = 5000, updatedAt = 5000\<rparr>"

definition task_mail :: Task where
  "task_mail = \<lparr>Task.id = ''T00002'', contactId = ''C00002'', title = ''Send mail'',
     notes' = Some ''Include quote'', dueDate = Some 9000, completed = True, priority = high,
     createdAt = 6000, updatedAt = 7000\<rparr>"

definition example_world :: "(nat \<Rightarrow> real) \<Rightarrow> world" where
  "example_world rs =
     \<lparr>CONTACTS_CACHE = Some [contact_cy, contact_bob, contact_ada],
      TASKS_CACHE = Some [task_call, task_mail],
      contacts_file = Some [contact_cy, contact_bob, contact_ada],
      tasks_file = Some [task_call, task_mail],
      random_draws = rs,
      clock_reads = (\<lambda>n. 10000 + int n)\<rparr>"

text \<open>A contact and a task to create in that state, and the records expected.\<close>

definition input_dee :: ContactCreateInput where
  "input_dee = \<lparr>ContactCreateInput.firstName = '' Dee '', lastName = ''Dune'',
     email = ''dee@w.com'', phone = None, company = None, city = None, state = None,
     tags = None\<rparr>"

definition contact_dee :: Contact where
  "contact_dee = \<lparr>Contact.id = ''C00004'', firstName = ''Dee'', lastName = ''Dune'',
     email = ''dee@w.com'', phone = [], company = [], city = [], state = [], tags = [],
     createdAt = 10000, lastActivityAt = 10000\<rparr>"

definition input_callback :: TaskCreateInput where
  "input_callback = \<lparr>TaskCreateInput.contactId = ''C00001'', title = '' Call back '',
     notes' = None, dueDate = None, priority = None\<rparr>"

definition task_callback :: Task where
  "task_callback = \<lparr>Task.id = ''T00003'', contactId = ''C00001'', title = ''Call back'',
     notes' = None, dueDate = None, completed = False, priority = medium,
     createdAt = 10000, updatedAt = 10000\<rparr>"

text \<open>The update payload \<open>{completed: true}\<close>.\<close>

definition update_completed :: TaskUpdateInput where
  "update_completed = \<lparr>TaskUpdateInput.title = None, notes' = None, dueDate = None,
     completed = Some True, priority = None\<rparr>"

text \<open>
  A state whose largest contact number and largest task number are \<open>2^53\<close>
  (9007199254740992).
\<close>

definition contact_big :: Contact where
  "contact_big = contact_bob\<lparr>Contact.id := ''C9007199254740992''\<rparr>"

definition task_big :: Task where
  "task_big = task_mail\<lparr>Task.id := ''T9007199254740992''\<rparr>"

definition big_world :: "(nat \<Rightarrow> real) \<Rightarrow> world" where
  "big_world rs =
     \<lparr>CONTACTS_CACHE = Some [contact_big, contact_ada],
      TASKS_CACHE = Some [task_call, task_big],
      contacts_file = Some [contact_big, contact_ada],
      tasks_file = Some [task_call, task_big],
      random_draws = rs,
      clock_reads = (\<lambda>n. 10000 + int n)\<rparr>"

text \<open>A title of 121 characters, and the query for the tasks of contact \<open>C00001\<close>.\<close>

definition long_title :: string where
  "long_title = replicate 121 CHR ''a''"

definition tasks_of_ada :: TaskListParams where
  "tasks_of_ada = \<lparr>TaskListParams.contactId = Some ''C00001'', q = None, sortBy = None,
     sortOrder = None, page = None, pageSize = None, completed = None\<rparr>"

section \<open>The properties, as the specification words them\<close>

text \<open>
  The filter predicate in the words of the specification: a field contains the search
  text when its lower-case form includes the lower-case search text; a contact passes
  when the search text is empty or one of its text fields (first and last name joined,
  email, company, city, state, any tag) contains it; a task passes when every structured
  filter given matches and the search text is empty or its title or notes contain it.
  \<open>taskPasses_claimed\<close> takes every \<open>contactId\<close> given as a filter;
  \<open>taskPasses\<close> takes the empty \<open>contactId\<close> as no filter.
\<close>

definition containsText :: "string \<Rightarrow> string \<Rightarrow> bool" where
  "containsText field searchText = includes_js (toLowerCase field) (toLowerCase searchText)"

definition contactTextFields :: "Contact \<Rightarrow> string list" where
  "contactTextFields c =
     [Contact.firstName c @ '' '' @ Contact.lastName c, Contact.email c, Contact.company c,
      Contact.city c, Contact.state c] @ Contact.tags c"

definition contactPasses :: "ListParams \<Rightarrow> Contact \<Rightarrow> bool" where
  "contactPasses params c =
     (let searchText = (case ListParams.q params of Some v \<Rightarrow> v | None \<Rightarrow> [])
      in searchText = [] \<or> list_ex (\<lambda>f. containsText f searchText) (contactTextFields c))"

definition taskTextFields :: "Task \<Rightarrow> string list" where
  "taskTextFields t = Task.title t # (case Task.notes' t of Some n \<Rightarrow> [n] | None \<Rightarrow> [])"

definition taskPasses_claimed :: "TaskListParams \<Rightarrow> Task \<Rightarrow> bool" where
  "taskPasses_claimed params t =
     (let searchText = (case TaskListParams.q params of Some v \<Rightarrow> v | None \<Rightarrow> [])
      in (case TaskListParams.contactId params of
            Some cid \<Rightarrow> Task.contactId t = cid | None \<Rightarrow> True)
       \<and> (case TaskListParams.completed params of
            Some b \<Rightarrow> Task.completed t = b | None \<Rightarrow> True)
       \<and> (searchText = [] \<or> list_ex (\<lambda>f. containsText f searchText) (taskTextFields t)))"

definition taskPasses :: "TaskListParams \<Rightarrow> Task \<Rightarrow> bool" where
  "taskPasses params t =
     (let searchText = (case TaskListParams.q params of Some v \<Rightarrow> v | None \<Rightarrow> [])
      in (case TaskListParams.contactId params of
            Some cid \<Rightarrow> cid = [] \<or> Task.contactId t = cid | None \<Rightarrow> True)
       \<and> (case TaskListParams.completed params of
            Some b \<Rightarrow> Task.completed t = b | None \<Rightarrow> True)
       \<and> (searchText = [] \<or> list_ex (\<lambda>f. containsText f searchText) (taskTextFields t)))"

text \<open>
  Two field values in the order the query asks for: numbers by their difference,
  everything else by \<open>lc\<close> on the string forms, the comparison negated when the order
  is descending.
\<close>

definition inOrder :: "(string \<Rightarrow> string \<Rightarrow> int) \<Rightarrow> SortOrder \<Rightarrow> jsval \<Rightarrow> jsval \<Rightarrow> bool" where
  "inOrder lc order av bv =
     (case (av, bv) of
        (JNum a, JNum b) \<Rightarrow> (if order = asc then a - b \<le> 0 else - (a - b) \<le> 0)
      | _ \<Rightarrow> (if order = asc then lc (String_js av) (String_js bv) \<le> 0
              else - lc (String_js av) (String_js bv) \<le> 0))"

text \<open>
  The id format in the words of the specification: the number written in decimal with
  zeros in front up to the width, the numeric suffix of an id (the number that the
  digits after its first character denote), and the next number: one more than the
  largest numeric suffix, or 1 when there is no record. A plain id is one character
  followed by decimal digits that denote a number below \<open>2^53\<close>.
\<close>

definition zeroPadded :: "nat \<Rightarrow> nat \<Rightarrow> string" where
  "zeroPadded n width = replicate (width - length (String_nat n)) CHR ''0'' @ String_nat n"

definition numericSuffix :: "string \<Rightarrow> nat" where
  "numericSuffix i = digitsValue (drop 1 i)"

definition plainId :: "string \<Rightarrow> bool" where
  "plainId i = (list_all isDigit (drop 1 i) \<and> digitsValue (drop 1 i) < 2 ^ 53)"

definition plainIds :: "string list \<Rightarrow> bool" where
  "plainIds ids = list_all plainId ids"

definition nextNumber :: "string list \<Rightarrow> nat" where
  "nextNumber ids = 1 + Max (insert 0 (numericSuffix ` set ids))"

text \<open>\<open>msg.startsWith(prefix)\<close>, as the routes classify an error by its message.\<close>

definition startsWith :: "string \<Rightarrow> string \<Rightarrow> bool" where
  "startsWith s p = (take (length p) s = p)"

section \<open>Auxiliary facts\<close>

subsection \<open>Seeding leaves the other store alone\<close>

lemma ensureSeeded_contacts_seeded:
  "CONTACTS_CACHE w = Some cs \<Longrightarrow> ensureSeeded_contacts w = w"
  by (simp add: ensureSeeded_contacts_def)

lemma ensureSeeded_tasks_seeded:
  "TASKS_CACHE w = Some ts \<Longrightarrow> ensureSeeded_tasks w = w"
  by (simp add: ensureSeeded_tasks_def)

lemma ensureSeeded_contacts_frame:
  "TASKS_CACHE (ensureSeeded_contacts w) = TASKS_CACHE w \<and>
   tasks_file (ensureSeeded_contacts w) = tasks_file w"
  by (simp add: ensureSeeded_contacts_def seedContacts_def Date_now_def writeJson_contacts_def
      readJson_contacts_def split: option.splits list.splits prod.splits)

lemma ensureSeeded_tasks_frame:
  "CONTACTS_CACHE (ensureSeeded_tasks w) = CONTACTS_CACHE w \<and>
   contacts_file (ensureSeeded_tasks w) = contacts_file w"
  by (simp add: ensureSeeded_tasks_def seedTasks_def Date_now_def writeJson_tasks_def
      readJson_tasks_def split: option.splits list.splits prod.splits)

lemma ensureSeeded_tasks_cache:
  "\<exists>ts. TASKS_CACHE (ensureSeeded_tasks w) = Some ts"
  by (simp add: ensureSeeded_tasks_def seedTasks_def Date_now_def writeJson_tasks_def
      readJson_tasks_def split: option.splits list.splits prod.splits)

lemma ensureSeeded_contacts_cache:
  "\<exists>cs. CONTACTS_CACHE (ensureSeeded_contacts w) = Some cs"
  by (simp add: ensureSeeded_contacts_def seedContacts_def Date_now_def writeJson_contacts_def
      readJson_contacts_def split: option.splits list.splits prod.splits)

subsection \<open>Slices and sorting\<close>


lemma set_js_slice: "set (js_slice xs a b) \<subseteq> set xs"
  by (auto simp: js_slice_def Let_def dest!: in_set_takeD in_set_dropD)

lemma length_js_insert [simp]: "length (js_insert cmp x ys) = Suc (length ys)"
  by (induction ys) auto

lemma set_js_insert [simp]: "set (js_insert cmp x ys) = insert x (set ys)"
  by (induction ys) auto

lemma length_js_sort [simp]: "length (js_sort cmp xs) = length xs"
  by (induction xs) (auto simp: js_sort_def)

lemma set_js_sort [simp]: "set (js_sort cmp xs) = set xs"
  by (induction xs) (auto simp: js_sort_def)

lemma successively_js_insert:
  assumes asym: "\<And>a b. 0 < cmp a b \<Longrightarrow> cmp b a \<le> 0"
  shows "successively (\<lambda>a b. cmp a b \<le> 0) ys \<Longrightarrow> successively (\<lambda>a b. cmp a b \<le> 0) (js_insert cmp x ys)"
proof (induction ys)
  case Nil
  then show ?case by simp
next
  case (Cons y ys)
  show ?case
  proof (cases "cmp x y \<le> 0")
    case True
    with Cons.prems show ?thesis by simp
  next
    case False
    then have yx: "cmp y x \<le> 0" using asym[of x y] by simp
    have tl: "successively (\<lambda>a b. cmp a b \<le> 0) ys"
      using Cons.prems by (auto simp: successively_Cons)
    have ih: "successively (\<lambda>a b. cmp a b \<le> 0) (js_insert cmp x ys)"
      using Cons.IH tl by simp
    show ?thesis
    proof (cases ys)
      case Nil
      with False yx show ?thesis by simp
    next
      case (Cons z zs)
      have yz: "cmp y z \<le> 0" using Cons.prems Cons by simp
      show ?thesis using False yx ih yz Cons by (simp add: successively_Cons)
    qed
  qed
qed

lemma successively_js_sort:
  assumes asym: "\<And>a b. 0 < cmp a b \<Longrightarrow> cmp b a \<le> 0"
  shows "successively (\<lambda>a b. cmp a b \<le> 0) (js_sort cmp xs)"
proof (induction xs)
  case Nil
  then show ?case by (simp add: js_sort_def)
next
  case (Cons x xs)
  have "successively (\<lambda>a b. cmp a b \<le> 0) (js_insert cmp x (js_sort cmp xs))"
    by (rule successively_js_insert[OF asym Cons.IH])
  then show ?case by (simp add: js_sort_def)
qed

lemma successively_take: "successively P xs \<Longrightarrow> successively P (take n xs)"
  by (metis append_take_drop_id successively_append_iff)

lemma successively_drop: "successively P xs \<Longrightarrow> successively P (drop n xs)"
  by (metis append_take_drop_id successively_append_iff)

lemma successively_js_slice: "successively P xs \<Longrightarrow> successively P (js_slice xs a b)"
  by (simp add: js_slice_def Let_def successively_take successively_drop)

subsection \<open>What a listing returns\<close>

lemma listContacts_Inr:
  assumes "listContacts lc params w = (Inr res, w')"
  shows "ListResult.page res = (case ListParams.page params of Some v \<Rightarrow> v | None \<Rightarrow> 1)"
    and "ListResult.pageSize res = (case ListParams.pageSize params of Some v \<Rightarrow> v | None \<Rightarrow> 50)"
    and "ListResult.total res = int (length (filter
           (contactFilter (normalize (case ListParams.q params of Some v \<Rightarrow> v | None \<Rightarrow> [])))
           (contacts_of (ensureSeeded_contacts w))))"
    and "ListResult.hasNext res =
           ((ListResult.page res - 1) * ListResult.pageSize res + ListResult.pageSize res
              < ListResult.total res)"
    and "ListResult.data res =
           js_slice (js_sort (\<lambda>a b. sortComparator lc
                        (case ListParams.sortOrder params of Some v \<Rightarrow> v | None \<Rightarrow> desc)
                        (contactField a (case ListParams.sortBy params of Some v \<Rightarrow> v | None \<Rightarrow> CK_lastActivityAt))
                        (contactField b (case ListParams.sortBy params of Some v \<Rightarrow> v | None \<Rightarrow> CK_lastActivityAt)))
                      (filter (contactFilter (normalize (case ListParams.q params of Some v \<Rightarrow> v | None \<Rightarrow> [])))
                         (contacts_of (ensureSeeded_contacts w))))
             ((ListResult.page res - 1) * ListResult.pageSize res)
             ((ListResult.page res - 1) * ListResult.pageSize res + ListResult.pageSize res)"
    and "\<not> random_draws (ensureSeeded_contacts w) 1 < 0.05"
  using assms
  by (auto simp: listContacts_def Let_def Math_random_def contacts_of_def split: if_splits)


lemma listTasks_Inr:
  assumes "listTasks lc params w = (Inr res, w')"
  shows "TaskListResult.page res = (case TaskListParams.page params of Some v \<Rightarrow> v | None \<Rightarrow> 1)"
    and "TaskListResult.pageSize res = (case TaskListParams.pageSize params of Some v \<Rightarrow> v | None \<Rightarrow> 50)"
    and "TaskListResult.total res = int (length (filter
           (taskFilter (TaskListParams.contactId params) (TaskListParams.completed params)
              (normalize (case TaskListParams.q params of Some v \<Rightarrow> v | None \<Rightarrow> [])))
           (tasks_of (ensureSeeded_tasks w))))"
    and "TaskListResult.hasNext res =
           ((TaskListResult.page res - 1) * TaskListResult.pageSize res + TaskListResult.pageSize res
              < TaskListResult.total res)"
    and "TaskListResult.data res =
           js_slice (js_sort (\<lambda>a b. sortComparator lc
                        (case TaskListParams.sortOrder params of Some v \<Rightarrow> v | None \<Rightarrow> desc)
                        (taskField a (case TaskListParams.sortBy params of Some v \<Rightarrow> v | None \<Rightarrow> TK_updatedAt))
                        (taskField b (case TaskListParams.sortBy params of Some v \<Rightarrow> v | None \<Rightarrow> TK_updatedAt)))
                      (filter (taskFilter (TaskListParams.contactId params) (TaskListParams.completed params)
                                 (normalize (case TaskListParams.q params of Some v \<Rightarrow> v | None \<Rightarrow> [])))
                         (tasks_of (ensureSeeded_tasks w))))
             ((TaskListResult.page res - 1) * TaskListResult.pageSize res)
             ((TaskListResult.page res - 1) * TaskListResult.pageSize res + TaskListResult.pageSize res)"
    and "\<not> random_draws (ensureSeeded_tasks w) 1 < 0.05"
  using assms
  by (auto simp: listTasks_def Let_def Math_random_def tasks_of_def split: if_splits)



lemma run_pair: "fst p = Inr r \<Longrightarrow> p = (Inr r, snd p)"
  by (cases p) simp

section \<open>Pagination\<close>



section \<open>Facts about the filters\<close>

lemma includes_js_iff: "includes_js s x \<longleftrightarrow> (\<exists>pre suf. s = pre @ x @ suf)"
proof (induction s)
  case Nil
  then show ?case by auto
next
  case (Cons c cs)
  show ?case
  proof
    assume "includes_js (c # cs) x"
    then consider "take (length x) (c # cs) = x" | "includes_js cs x" by auto
    then show "\<exists>pre suf. c # cs = pre @ x @ suf"
    proof cases
      case 1
      then have "c # cs = [] @ x @ drop (length x) (c # cs)"
        by (metis append_Nil append_take_drop_id)
      then show ?thesis by blast
    next
      case 2
      then obtain pre suf where "cs = pre @ x @ suf" using Cons.IH by blast
      then have "c # cs = (c # pre) @ x @ suf" by simp
      then show ?thesis by blast
    qed
  next
    assume "\<exists>pre suf. c # cs = pre @ x @ suf"
    then obtain pre suf where e: "c # cs = pre @ x @ suf" by blast
    show "includes_js (c # cs) x"
    proof (cases pre)
      case Nil
      with e have "take (length x) (c # cs) = x" by simp
      then show ?thesis by simp
    next
      case (Cons p ps)
      with e have "cs = ps @ x @ suf" by simp
      then have "includes_js cs x" using Cons.IH by blast
      then show ?thesis by simp
    qed
  qed
qed

lemma includes_js_Nil [simp]: "includes_js [] x = (x = [])"
  by simp

lemma contactFilter_passes:
  "contactFilter (normalize (case ListParams.q params of Some v \<Rightarrow> v | None \<Rightarrow> [])) c
     = contactPasses params c"
  by (auto simp: contactFilter_def contactPasses_def containsText_def contactTextFields_def
      normalize_def toLowerCase_def list_ex_iff Let_def)

lemma taskFilter_passes:
  "taskFilter (TaskListParams.contactId params) (TaskListParams.completed params)
      (normalize (case TaskListParams.q params of Some v \<Rightarrow> v | None \<Rightarrow> [])) t
     = taskPasses params t"
  by (auto simp: taskFilter_def taskPasses_def containsText_def taskTextFields_def
      normalize_def toLowerCase_def list_ex_iff Let_def split: option.splits)

lemma contactFilter_passes_fun:
  "contactFilter (normalize (case ListParams.q params of Some v \<Rightarrow> v | None \<Rightarrow> []))
     = contactPasses params"
  by (rule ext) (rule contactFilter_passes)

lemma taskFilter_passes_fun:
  "taskFilter (TaskListParams.contactId params) (TaskListParams.completed params)
      (normalize (case TaskListParams.q params of Some v \<Rightarrow> v | None \<Rightarrow> []))
     = taskPasses params"
  by (rule ext) (rule taskFilter_passes)

lemma set_page_subset:
  "set (js_slice (js_sort cmp (filter P xs)) a b) \<subseteq> set (filter P xs)"
  using set_js_slice[of "js_sort cmp (filter P xs)" a b] by simp

section \<open>Filtering\<close>

text \<open>
  Claim C1, amended. When a listing returns a result, every record of \<open>data\<close> is a
  record of the collection that passes the filter predicate (every structured filter
  given matches exactly, where a \<open>contactId\<close> that is the empty string counts as not
  given; and when the search text is not empty, one of the text fields contains its
  lower-case form), and \<open>total\<close> is the number of records of the collection that pass
  it.
\<close>

theorem listing_filter:
  "(listContacts lc params w = (Inr res, w') \<longrightarrow>
      (\<forall>c \<in> set (ListResult.data res).
          c \<in> set (contacts_of (ensureSeeded_contacts w)) \<and> contactPasses params c)
      \<and> ListResult.total res
          = int (length (filter (contactPasses params) (contacts_of (ensureSeeded_contacts w)))))
   \<and> (listTasks lc tparams tw = (Inr tres, tw') \<longrightarrow>
      (\<forall>t \<in> set (TaskListResult.data tres).
          t \<in> set (tasks_of (ensureSeeded_tasks tw)) \<and> taskPasses tparams t)
      \<and> TaskListResult.total tres
          = int (length (filter (taskPasses tparams) (tasks_of (ensureSeeded_tasks tw)))))"
proof -
  have contacts: "(\<forall>c \<in> set (ListResult.data res).
          c \<in> set (contacts_of (ensureSeeded_contacts w)) \<and> contactPasses params c)
      \<and> ListResult.total res
          = int (length (filter (contactPasses params) (contacts_of (ensureSeeded_contacts w))))"
    if run: "listContacts lc params w = (Inr res, w')"
  proof -
    note d = listContacts_Inr[OF run]
    have "set (ListResult.data res)
            \<subseteq> set (filter (contactPasses params) (contacts_of (ensureSeeded_contacts w)))"
      unfolding d(5) contactFilter_passes_fun by (rule set_page_subset)
    then show ?thesis using d(3) unfolding contactFilter_passes_fun by auto
  qed
  have tasks: "(\<forall>t \<in> set (TaskListResult.data tres).
          t \<in> set (tasks_of (ensureSeeded_tasks tw)) \<and> taskPasses tparams t)
      \<and> TaskListResult.total tres
          = int (length (filter (taskPasses tparams) (tasks_of (ensureSeeded_tasks tw))))"
    if run: "listTasks lc tparams tw = (Inr tres, tw')"
  proof -
    note d = listTasks_Inr[OF run]
    have "set (TaskListResult.data tres)
            \<subseteq> set (filter (taskPasses tparams) (tasks_of (ensureSeeded_tasks tw)))"
      unfolding d(5) taskFilter_passes_fun by (rule set_page_subset)
    then show ?thesis using d(3) unfolding taskFilter_passes_fun by auto
  qed
  show ?thesis using contacts tasks by blast
qed

text \<open>An instance: a search for \<open>ADA\<close> among the contacts, and the completed tasks of
  contact \<open>C00002\<close> that mention \<open>Quote\<close>.\<close>

theorem listing_filter_witness:
  "fst (listContacts codeUnitCompare
          \<lparr>ListParams.q = Some ''ADA'', sortBy = None, sortOrder = None, page = None, pageSize = None\<rparr>
          (example_world (\<lambda>n. 0.99)))
     = Inr \<lparr>ListResult.data = [contact_ada], total = 1, page = 1, pageSize = 50, hasNext = False\<rparr>
   \<and> contactPasses
        \<lparr>ListParams.q = Some ''ADA'', sortBy = None, sortOrder = None, page = None, pageSize = None\<rparr>
        contact_ada
   \<and> fst (listTasks codeUnitCompare
          \<lparr>TaskListParams.contactId = Some ''C00002'', q = Some ''Quote'', sortBy = None,
             sortOrder = None, page = None, pageSize = None, completed = Some True\<rparr>
          (example_world (\<lambda>n. 0.99)))
     = Inr \<lparr>TaskListResult.data = [task_mail], total = 1, page = 1, pageSize = 50, hasNext = False\<rparr>
   \<and> taskPasses
        \<lparr>TaskListParams.contactId = Some ''C00002'', q = Some ''Quote'', sortBy = None,
           sortOrder = None, page = None, pageSize = None, completed = Some True\<rparr>
        task_mail"
proof -
  let ?p = "\<lparr>ListParams.q = Some ''ADA'', sortBy = None, sortOrder = None, page = None, pageSize = None\<rparr>"
  let ?w = "example_world (\<lambda>n. 0.99)"
  let ?r = "\<lparr>ListResult.data = [contact_ada], total = 1, page = 1, pageSize = 50, hasNext = False\<rparr>"
  let ?tp = "\<lparr>TaskListParams.contactId = Some ''C00002'', q = Some ''Quote'', sortBy = None,
             sortOrder = None, page = None, pageSize = None, completed = Some True\<rparr>"
  let ?tr = "\<lparr>TaskListResult.data = [task_mail], total = 1, page = 1, pageSize = 50, hasNext = False\<rparr>"
  have c: "fst (listContacts codeUnitCompare ?p ?w) = Inr ?r"
    by code_simp
  have t: "fst (listTasks codeUnitCompare ?tp ?w) = Inr ?tr"
    by code_simp
  note law = listing_filter[of codeUnitCompare ?p ?w ?r "snd (listContacts codeUnitCompare ?p ?w)"
      ?tp ?w ?tr "snd (listTasks codeUnitCompare ?tp ?w)"]
  from law run_pair[OF c] have "contactPasses ?p contact_ada" by simp
  moreover from law run_pair[OF t] have "taskPasses ?tp task_mail" by simp
  ultimately show ?thesis using c t by simp
qed

text \<open>As stated, with every given \<open>contactId\<close> a filter, the claim fails: the query
  with the empty \<open>contactId\<close> returns the task of contact \<open>C00001\<close>.\<close>

theorem listing_filter_empty_contactId_counterexample:
  "fst (listTasks codeUnitCompare
          \<lparr>TaskListParams.contactId = Some [], q = None, sortBy = None,
             sortOrder = None, page = None, pageSize = None, completed = None\<rparr>
          (example_world (\<lambda>n. 0.99)))
     = Inr \<lparr>TaskListResult.data = [task_mail, task_call], total = 2, page = 1, pageSize = 50,
            hasNext = False\<rparr>
   \<and> \<not> taskPasses_claimed
        \<lparr>TaskListParams.contactId = Some [], q = None, sortBy = None,
           sortOrder = None, page = None, pageSize = None, completed = None\<rparr>
        task_call"
  by code_simp

section \<open>Facts about the comparator\<close>

lemma raw_case:
  "\<not> (\<exists>a b. av = JNum a \<and> bv = JNum b) \<Longrightarrow>
   (case (av, bv) of (JNum a, JNum b) \<Rightarrow> f a b | _ \<Rightarrow> g) = g"
  by (cases av; cases bv) auto

lemma sortComparator_flip:
  assumes flip: "\<And>a b. sgn (lc b a) = - sgn (lc a b)"
  shows "0 < sortComparator lc order av bv \<Longrightarrow> sortComparator lc order bv av \<le> 0"
proof -
  have pos: "lc y x \<le> 0" if "0 < lc x y" for x y
    using flip[of y x] that by (simp add: sgn_if split: if_splits)
  have neg: "0 \<le> lc y x" if "lc x y < 0" for x y
    using flip[of y x] that by (simp add: sgn_if split: if_splits)
  assume gt: "0 < sortComparator lc order av bv"
  show ?thesis
  proof (cases "\<exists>a b. av = JNum a \<and> bv = JNum b")
    case True
    then show ?thesis using gt by (auto simp: sortComparator_def Let_def split: if_splits)
  next
    case False
    then have sw: "\<not> (\<exists>a b. bv = JNum a \<and> av = JNum b)" by blast
    have a: "sortComparator lc order av bv
               = (if order = asc then lc (String_js av) (String_js bv) else - lc (String_js av) (String_js bv))"
      using raw_case[OF False] by (simp add: sortComparator_def Let_def)
    have b: "sortComparator lc order bv av
               = (if order = asc then lc (String_js bv) (String_js av) else - lc (String_js bv) (String_js av))"
      using raw_case[OF sw] by (simp add: sortComparator_def Let_def)
    show ?thesis
      using gt pos[of "String_js av" "String_js bv"] neg[of "String_js av" "String_js bv"]
      unfolding a b by (simp split: if_splits)
  qed
qed

lemma sortComparator_inOrder:
  "(sortComparator lc order av bv \<le> 0) = inOrder lc order av bv"
  by (cases av; cases bv) (simp_all add: sortComparator_def inOrder_def Let_def)

lemma sorted_page:
  assumes flip: "\<And>a b. sgn (lc b a) = - sgn (lc a b)"
  shows "successively (\<lambda>a b. inOrder lc order (f a) (f b))
           (js_slice (js_sort (\<lambda>a b. sortComparator lc order (f a) (f b)) xs) i j)"
proof -
  have "successively (\<lambda>a b. sortComparator lc order (f a) (f b) \<le> 0)
          (js_sort (\<lambda>a b. sortComparator lc order (f a) (f b)) xs)"
    by (rule successively_js_sort) (rule sortComparator_flip[OF flip])
  then have "successively (\<lambda>a b. sortComparator lc order (f a) (f b) \<le> 0)
          (js_slice (js_sort (\<lambda>a b. sortComparator lc order (f a) (f b)) xs) i j)"
    by (rule successively_js_slice)
  then show ?thesis by (simp add: sortComparator_inOrder)
qed

lemma codeUnitCompare_flip: "sgn (codeUnitCompare b a) = - sgn (codeUnitCompare a b)"
proof (induction a b rule: codeUnitCompare.induct)
  case 1
  then show ?case by simp
next
  case (2 b bs)
  then show ?case by simp
next
  case (3 a as)
  then show ?case by simp
next
  case (4 a as b bs)
  consider "(of_char a :: nat) < of_char b" | "(of_char b :: nat) < of_char a" | "(of_char a :: nat) = of_char b"
    by linarith
  then show ?case
  proof cases
    case 1
    then show ?thesis by simp
  next
    case 2
    then show ?thesis by simp
  next
    case 3
    then show ?thesis using 4 by simp
  qed
qed

section \<open>Sorting\<close>

text \<open>
  Claim C8. When a listing returns a result, every two adjacent records of \<open>data\<close> are
  in the order of the comparator on the requested sort field: numbers compared by their
  difference, all other values by the string comparison \<open>lc\<close> of their string forms,
  negated when the sort order is descending. \<open>lc\<close> stands for \<open>localeCompare\<close>, of
  which the proof uses that swapping its arguments flips the sign of its result.
\<close>

theorem listing_sorted:
  assumes "\<forall>a b. sgn (lc b a) = - sgn (lc a b)"
  shows "(listContacts lc params w = (Inr res, w') \<longrightarrow>
            successively
              (\<lambda>a b. inOrder lc
                 (case ListParams.sortOrder params of Some v \<Rightarrow> v | None \<Rightarrow> desc)
                 (contactField a (case ListParams.sortBy params of Some v \<Rightarrow> v | None \<Rightarrow> CK_lastActivityAt))
                 (contactField b (case ListParams.sortBy params of Some v \<Rightarrow> v | None \<Rightarrow> CK_lastActivityAt)))
              (ListResult.data res))
       \<and> (listTasks lc tparams tw = (Inr tres, tw') \<longrightarrow>
            successively
              (\<lambda>a b. inOrder lc
                 (case TaskListParams.sortOrder tparams of Some v \<Rightarrow> v | None \<Rightarrow> desc)
                 (taskField a (case TaskListParams.sortBy tparams of Some v \<Rightarrow> v | None \<Rightarrow> TK_updatedAt))
                 (taskField b (case TaskListParams.sortBy tparams of Some v \<Rightarrow> v | None \<Rightarrow> TK_updatedAt)))
              (TaskListResult.data tres))"
proof -
  have flip: "\<And>a b. sgn (lc b a) = - sgn (lc a b)" using assms by blast
  let ?o = "case ListParams.sortOrder params of Some v \<Rightarrow> v | None \<Rightarrow> desc"
  let ?f = "\<lambda>c. contactField c (case ListParams.sortBy params of Some v \<Rightarrow> v | None \<Rightarrow> CK_lastActivityAt)"
  let ?to = "case TaskListParams.sortOrder tparams of Some v \<Rightarrow> v | None \<Rightarrow> desc"
  let ?tf = "\<lambda>c. taskField c (case TaskListParams.sortBy tparams of Some v \<Rightarrow> v | None \<Rightarrow> TK_updatedAt)"
  have contacts: "successively (\<lambda>a b. inOrder lc ?o (?f a) (?f b)) (ListResult.data res)"
    if run: "listContacts lc params w = (Inr res, w')"
  proof -
    obtain xs i j where "ListResult.data res
        = js_slice (js_sort (\<lambda>a b. sortComparator lc ?o (?f a) (?f b)) xs) i j"
      using listContacts_Inr(5)[OF run] by blast
    then show ?thesis using sorted_page[OF flip, where order = ?o and f = ?f and xs = xs and i = i and j = j] by simp
  qed
  have tasks: "successively (\<lambda>a b. inOrder lc ?to (?tf a) (?tf b)) (TaskListResult.data tres)"
    if run: "listTasks lc tparams tw = (Inr tres, tw')"
  proof -
    obtain xs i j where "TaskListResult.data tres
        = js_slice (js_sort (\<lambda>a b. sortComparator lc ?to (?tf a) (?tf b)) xs) i j"
      using listTasks_Inr(5)[OF run] by blast
    then show ?thesis using sorted_page[OF flip, where order = ?to and f = ?tf and xs = xs and i = i and j = j] by simp
  qed
  show ?thesis
  proof (intro conjI impI)
    assume "listContacts lc params w = (Inr res, w')"
    then show "successively (\<lambda>a b. inOrder lc ?o (?f a) (?f b)) (ListResult.data res)"
      by (rule contacts)
  next
    assume "listTasks lc tparams tw = (Inr tres, tw')"
    then show "successively (\<lambda>a b. inOrder lc ?to (?tf a) (?tf b)) (TaskListResult.data tres)"
      by (rule tasks)
  qed
qed

text \<open>An instance: the contacts by first name ascending, the tasks by title
  descending, with the strings compared by code units.\<close>

theorem listing_sorted_witness:
  "fst (listContacts codeUnitCompare
          \<lparr>ListParams.q = None, sortBy = Some CK_firstName, sortOrder = Some asc, page = None,
             pageSize = None\<rparr>
          (example_world (\<lambda>n. 0.99)))
     = Inr \<lparr>ListResult.data = [contact_ada, contact_bob, contact_cy], total = 3, page = 1,
            pageSize = 50, hasNext = False\<rparr>
   \<and> successively (\<lambda>a b. inOrder codeUnitCompare asc (contactField a CK_firstName)
                       (contactField b CK_firstName))
        [contact_ada, contact_bob, contact_cy]
   \<and> fst (listTasks codeUnitCompare
          \<lparr>TaskListParams.contactId = None, q = None, sortBy = Some TK_title,
             sortOrder = Some desc, page = None, pageSize = None, completed = None\<rparr>
          (example_world (\<lambda>n. 0.99)))
     = Inr \<lparr>TaskListResult.data = [task_mail, task_call], total = 2, page = 1, pageSize = 50,
            hasNext = False\<rparr>
   \<and> successively (\<lambda>a b. inOrder codeUnitCompare desc (taskField a TK_title)
                       (taskField b TK_title))
        [task_mail, task_call]"
proof -
  let ?p = "\<lparr>ListParams.q = None, sortBy = Some CK_firstName, sortOrder = Some asc, page = None,
             pageSize = None\<rparr>"
  let ?w = "example_world (\<lambda>n. 0.99)"
  let ?r = "\<lparr>ListResult.data = [contact_ada, contact_bob, contact_cy], total = 3, page = 1,
            pageSize = 50, hasNext = False\<rparr>"
  let ?tp = "\<lparr>TaskListParams.contactId = None, q = None, sortBy = Some TK_title,
             sortOrder = Some desc, page = None, pageSize = None, completed = None\<rparr>"
  let ?tr = "\<lparr>TaskListResult.data = [task_mail, task_call], total = 2, page = 1, pageSize = 50,
            hasNext = False\<rparr>"
  have c: "fst (listContacts codeUnitCompare ?p ?w) = Inr ?r"
    by code_simp
  have t: "fst (listTasks codeUnitCompare ?tp ?w) = Inr ?tr"
    by code_simp
  have flip: "\<forall>a b. sgn (codeUnitCompare b a) = - sgn (codeUnitCompare a b)"
    using codeUnitCompare_flip by blast
  note law = listing_sorted[OF flip, of ?p ?w ?r "snd (listContacts codeUnitCompare ?p ?w)"
      ?tp ?w ?tr "snd (listTasks codeUnitCompare ?tp ?w)"]
  from law run_pair[OF c] have "successively (\<lambda>a b. inOrder codeUnitCompare asc (contactField a CK_firstName)
                       (contactField b CK_firstName)) [contact_ada, contact_bob, contact_cy]"
    by simp
  moreover from law run_pair[OF t] have "successively (\<lambda>a b. inOrder codeUnitCompare desc (taskField a TK_title)
                       (taskField b TK_title)) [task_mail, task_call]"
    by simp
  ultimately show ?thesis using c t by simp
qed

section \<open>Facts about digits, padding and the operations\<close>

subsection \<open>Decimal digits and padding\<close>

lemma of_char_digit_unit: "d < 10 \<Longrightarrow> (of_char (digit_unit d) :: nat) = 48 + d"
proof -
  assume "d < 10"
  then have "d \<in> {0, 1, 2, 3, 4, 5, 6, 7, 8, 9}" by auto
  then show ?thesis by (auto simp: digit_unit_def)
qed

lemma isDigit_digit_unit: "d < 10 \<Longrightarrow> isDigit (digit_unit d)"
  by (simp add: isDigit_def of_char_digit_unit)

lemma digitsValue_snoc:
  "digitsValue (s @ [c]) = 10 * digitsValue s + ((of_char c :: nat) - 48)"
  by (simp add: digitsValue_def)

lemma String_nat_digits: "list_all isDigit (String_nat n)"
proof (induction n rule: String_nat.induct)
  case (1 n)
  show ?case
  proof (cases "n < 10")
    case True
    then show ?thesis by (subst String_nat.simps) (simp add: isDigit_digit_unit)
  next
    case False
    then show ?thesis using 1 by (subst String_nat.simps) (simp add: isDigit_digit_unit)
  qed
qed

lemma digitsValue_String_nat: "digitsValue (String_nat n) = n"
proof (induction n rule: String_nat.induct)
  case (1 n)
  show ?case
  proof (cases "n < 10")
    case True
    then show ?thesis
      by (subst String_nat.simps) (simp add: digitsValue_def of_char_digit_unit)
  next
    case False
    then have "digitsValue (String_nat (n div 10)) = n div 10" using 1 by simp
    then show ?thesis using False
      by (subst String_nat.simps) (simp add: digitsValue_snoc of_char_digit_unit)
  qed
qed

lemma pad_loop_replicate: "pad_loop s n = replicate (n - length s) CHR ''0'' @ s"
proof (induction s n rule: pad_loop.induct)
  case (1 s sz)
  show ?case
  proof (cases "length s < sz")
    case True
    then have "pad_loop s sz = pad_loop (CHR ''0'' # s) sz" by (subst pad_loop.simps) simp
    also have "\<dots> = replicate (sz - length (CHR ''0'' # s)) CHR ''0'' @ CHR ''0'' # s"
      using 1 True by simp
    also have "\<dots> = replicate (Suc (sz - Suc (length s))) CHR ''0'' @ s"
      by (simp add: replicate_app_Cons_same)
    also have "Suc (sz - Suc (length s)) = sz - length s" using True by simp
    finally show ?thesis .
  next
    case False
    then show ?thesis by (subst pad_loop.simps) simp
  qed
qed

lemma pad_replicate:
  "pad n k = replicate (k - length (String_nat n)) CHR ''0'' @ String_nat n"
  by (simp add: pad_def pad_loop_replicate)

lemma digitsValue_zeros: "digitsValue (replicate k CHR ''0'' @ s) = digitsValue s"
  by (induction k) (simp_all add: digitsValue_def)

lemma Number_or_0_pad: "Number_or_0 (pad n k) = n"
proof -
  have "isDigit CHR ''0''" by (simp add: isDigit_def)
  then have "list_all isDigit (pad n k)"
    using String_nat_digits[of n] by (auto simp: pad_replicate list_all_iff)
  then show ?thesis
    by (simp add: Number_or_0_def) (simp add: pad_replicate digitsValue_zeros digitsValue_String_nat)
qed

lemma foldl_max_Max:
  fixes f :: "'a \<Rightarrow> nat"
  shows "foldl (\<lambda>m x. max m (f x)) a xs = Max (insert a (f ` set xs))"
proof (induction xs arbitrary: a)
  case Nil
  then show ?case by simp
next
  case (Cons x xs)
  have "foldl (\<lambda>m x. max m (f x)) a (x # xs) = Max (insert (max a (f x)) (f ` set xs))"
    using Cons by simp
  also have "\<dots> = max (max a (f x)) (Max (insert (f x) (f ` set xs)))"
    by (cases "xs = []") (auto simp: max_def)
  also have "\<dots> = Max (insert a (insert (f x) (f ` set xs)))"
    by (simp add: max.assoc)
  finally show ?case by simp
qed

lemma digitsValue_pad: "digitsValue (pad n k) = n"
  by (simp add: pad_replicate digitsValue_zeros digitsValue_String_nat)

lemma foldl_max_bound:
  fixes f :: "'a \<Rightarrow> nat"
  assumes "\<And>x. x \<in> set xs \<Longrightarrow> f x < b" and "a < b"
  shows "foldl (\<lambda>m x. max m (f x)) a xs < b"
  using assms by (induction xs arbitrary: a) auto

subsection \<open>The operations, unfolded\<close>

lemma tasks_of_ensureSeeded:
  "TASKS_CACHE (ensureSeeded_tasks w) = Some (tasks_of (ensureSeeded_tasks w))"
  using ensureSeeded_tasks_cache[of w] by (auto simp: tasks_of_def)

lemma contacts_of_ensureSeeded:
  "CONTACTS_CACHE (ensureSeeded_contacts w) = Some (contacts_of (ensureSeeded_contacts w))"
  using ensureSeeded_contacts_cache[of w] by (auto simp: contacts_of_def)

lemma getContact_eq:
  "getContact i w =
     (let w1 = ensureSeeded_contacts w;
          w3 = w1\<lparr>random_draws := (\<lambda>n. random_draws w1 (Suc (Suc n)))\<rparr>
      in if random_draws w1 1 < 0.05
         then (Inl ''TransientError: simulated network failure'', w3)
         else (case find (\<lambda>x. Contact.id x = i) (contacts_of w1) of
                 None \<Rightarrow> (Inl ''NotFoundError: contact not found'', w3)
               | Some c \<Rightarrow> (Inr c, w3)))"
  by (simp add: getContact_def Let_def Math_random_def contacts_of_def split: option.splits)

lemma getContact_frame:
  assumes "getContact i w = (r, w2)"
  shows "TASKS_CACHE w2 = TASKS_CACHE w" and "tasks_file w2 = tasks_file w"
  using assms ensureSeeded_contacts_frame[of w]
  by (auto simp: getContact_eq Let_def split: if_splits option.splits)

lemma createTask_eq:
  assumes "getContact (TaskCreateInput.contactId input) (ensureSeeded_tasks w) = (found, w2)"
  shows "createTask input w =
     (case found of
        Inl e \<Rightarrow> (Inl ''ValidationError: contact does not exist'', w2)
      | Inr c \<Rightarrow>
          if trim (TaskCreateInput.title input) = []
          then (Inl ''ValidationError: title required'', w2)
          else if 120 < length (trim (TaskCreateInput.title input))
          then (Inl ''ValidationError: title too long'', w2)
          else if random_draws w2 1 < 0.12
          then (Inl ''TransientError: simulate mutation failure'',
                w2\<lparr>random_draws := (\<lambda>n. random_draws w2 (Suc (Suc n)))\<rparr>)
          else
            (let ts = tasks_of (ensureSeeded_tasks w);
                 task = \<lparr>Task.id = ''T'' @ pad (double_plus_1 (foldl (\<lambda>m t. max m (Number_or_0 (drop 1 (Task.id t)))) 0 ts)) 5,
                         contactId = TaskCreateInput.contactId input,
                         title = trim (TaskCreateInput.title input),
                         notes' = TaskCreateInput.notes' input,
                         dueDate = TaskCreateInput.dueDate input,
                         completed = False,
                         priority = (case TaskCreateInput.priority input of
                                       Some v \<Rightarrow> v | None \<Rightarrow> medium),
                         createdAt = clock_reads w2 0, updatedAt = clock_reads w2 0\<rparr>
             in (Inr task,
                 w2\<lparr>random_draws := (\<lambda>n. random_draws w2 (Suc (Suc n))),
                    clock_reads := (\<lambda>n. clock_reads w2 (Suc n)),
                    TASKS_CACHE := Some (ts @ [task]),
                    tasks_file := Some (ts @ [task])\<rparr>)))"
proof -
  obtain ts where c: "TASKS_CACHE (ensureSeeded_tasks w) = Some ts"
    using ensureSeeded_tasks_cache by blast
  then have c2: "TASKS_CACHE w2 = Some ts"
    using getContact_frame(1)[OF assms] by simp
  show ?thesis
    by (simp add: createTask_def assms Let_def Math_random_def Date_now_def
        writeJson_tasks_def tasks_of_def c c2 split: sum.splits)
qed

lemma updateTask_eq:
  "updateTask i updates w =
     (let w1 = ensureSeeded_tasks w;
          ts = tasks_of w1;
          w3 = w1\<lparr>random_draws := (\<lambda>n. random_draws w1 (Suc (Suc n)))\<rparr>;
          idx = findIndex (\<lambda>t. Task.id t = i) ts;
          prev = ts ! nat idx;
          next = prev\<lparr>
             Task.title := (case TaskUpdateInput.title updates of
                         Some v \<Rightarrow> (if trim v \<noteq> [] then trim v else Task.title prev)
                       | None \<Rightarrow> Task.title prev),
             Task.notes' := (case TaskUpdateInput.notes' updates of
                         Some v \<Rightarrow> Some v | None \<Rightarrow> Task.notes' prev),
             Task.dueDate := (case TaskUpdateInput.dueDate updates of
                         Some v \<Rightarrow> Some v | None \<Rightarrow> Task.dueDate prev),
             Task.completed := (case TaskUpdateInput.completed updates of
                         Some v \<Rightarrow> v | None \<Rightarrow> Task.completed prev),
             Task.priority := (case TaskUpdateInput.priority updates of
                         Some v \<Rightarrow> v | None \<Rightarrow> Task.priority prev),
             Task.updatedAt := clock_reads w1 0\<rparr>
      in if random_draws w1 1 < 0.12
         then (Inl ''TransientError: simulate mutation failure'', w3)
         else if idx = - 1 then (Inl ''NotFoundError: task not found'', w3)
         else (Inr next,
               w3\<lparr>clock_reads := (\<lambda>n. clock_reads w1 (Suc n)),
                  TASKS_CACHE := Some (ts[nat idx := next]),
                  tasks_file := Some (ts[nat idx := next])\<rparr>))"
proof -
  obtain ts where c: "TASKS_CACHE (ensureSeeded_tasks w) = Some ts"
    using ensureSeeded_tasks_cache by blast
  show ?thesis
    by (simp add: updateTask_def Let_def Math_random_def Date_now_def writeJson_tasks_def
        tasks_of_def c cong: option.case_cong if_cong)
qed

lemma deleteTask_eq:
  "deleteTask i w =
     (let w1 = ensureSeeded_tasks w;
          ts = tasks_of w1;
          w3 = w1\<lparr>random_draws := (\<lambda>n. random_draws w1 (Suc (Suc n)))\<rparr>;
          idx = findIndex (\<lambda>t. Task.id t = i) ts
      in if random_draws w1 1 < 0.12
         then (Inl ''TransientError: simulate mutation failure'', w3)
         else if idx = - 1 then (Inl ''NotFoundError: task not found'', w3)
         else (Inr True,
               w3\<lparr>TASKS_CACHE := Some (splice1 (nat idx) ts),
                  tasks_file := Some (splice1 (nat idx) ts)\<rparr>))"
proof -
  obtain ts where c: "TASKS_CACHE (ensureSeeded_tasks w) = Some ts"
    using ensureSeeded_tasks_cache by blast
  show ?thesis
    by (simp add: deleteTask_def Let_def Math_random_def writeJson_tasks_def tasks_of_def c)
qed

lemma createContact_eq:
  "createContact input w =
     (let w1 = ensureSeeded_contacts w;
          cs = contacts_of w1;
          contact = \<lparr>Contact.id = nextContactId cs,
                     firstName = trim (ContactCreateInput.firstName input),
                     lastName = trim (ContactCreateInput.lastName input),
                     email = trim (ContactCreateInput.email input),
                     phone = (case ContactCreateInput.phone input of Some v \<Rightarrow> v | None \<Rightarrow> []),
                     company = (case ContactCreateInput.company input of Some v \<Rightarrow> v | None \<Rightarrow> []),
                     city = (case ContactCreateInput.city input of Some v \<Rightarrow> v | None \<Rightarrow> []),
                     state = (case ContactCreateInput.state input of Some v \<Rightarrow> v | None \<Rightarrow> []),
                     tags = (case ContactCreateInput.tags input of Some v \<Rightarrow> v | None \<Rightarrow> []),
                     createdAt = clock_reads w1 0, lastActivityAt = clock_reads w1 0\<rparr>
      in if trim (ContactCreateInput.firstName input) = []
            \<or> trim (ContactCreateInput.lastName input) = []
            \<or> trim (ContactCreateInput.email input) = []
         then (Inl ''ValidationError: firstName, lastName, email required'', w1)
         else if list_ex (\<lambda>c. toLowerCase (Contact.email c)
                               = toLowerCase (trim (ContactCreateInput.email input))) cs
         then (Inl ''ValidationError: email already exists'', w1)
         else (Inr contact,
               w1\<lparr>clock_reads := (\<lambda>n. clock_reads w1 (Suc n)),
                  CONTACTS_CACHE := Some (contact # cs),
                  contacts_file := Some (contact # cs)\<rparr>))"
  by (simp add: createContact_def Let_def Date_now_def writeJson_contacts_def contacts_of_def)

lemma deleteContact_eq:
  "deleteContact i w =
     (let w1 = ensureSeeded_contacts w;
          cs = contacts_of w1;
          idx = findIndex (\<lambda>c. Contact.id c = i) cs
      in if idx = - 1 then (Inl ''NotFoundError: contact not found'', w1)
         else (Inr True,
               w1\<lparr>CONTACTS_CACHE := Some (splice1 (nat idx) cs),
                  contacts_file := Some (splice1 (nat idx) cs),
                  tasks_file := Some (filter (\<lambda>t. Task.contactId t \<noteq> i)
                     (case tasks_file w1 of Some ts \<Rightarrow> ts | None \<Rightarrow> []))\<rparr>))"
  by (simp add: deleteContact_def Let_def writeJson_contacts_def writeJson_tasks_def
      readJson_tasks_def contacts_of_def)

subsection \<open>Indices, ids and what a creation returns\<close>

lemma findIndex_range: "findIndex P xs \<noteq> - 1 \<Longrightarrow> 0 \<le> findIndex P xs \<and> nat (findIndex P xs) < length xs"
  by (induction xs) (auto simp: Let_def split: if_splits)

lemma findIndex_find:
  "find P xs = (if findIndex P xs = - 1 then None else Some (xs ! nat (findIndex P xs)))"
proof (induction xs)
  case Nil
  then show ?case by simp
next
  case (Cons x xs)
  show ?case
  proof (cases "P x")
    case True
    then show ?thesis by simp
  next
    case False
    show ?thesis
    proof (cases "findIndex P xs = - 1")
      case True
      then show ?thesis using False Cons by (simp add: Let_def)
    next
      case nf: False
      then have "0 \<le> findIndex P xs" using findIndex_range by blast
      then have "nat (findIndex P xs + 1) = Suc (nat (findIndex P xs))" by simp
      then show ?thesis using False nf Cons by (simp add: Let_def)
    qed
  qed
qed

lemma findIndex_first:
  "findIndex P xs \<noteq> - 1 \<Longrightarrow>
   P (xs ! nat (findIndex P xs)) \<and> (\<forall>j < nat (findIndex P xs). \<not> P (xs ! j))"
proof (induction xs)
  case Nil
  then show ?case by simp
next
  case (Cons x xs)
  show ?case
  proof (cases "P x")
    case True
    then show ?thesis by simp
  next
    case False
    then have nf: "findIndex P xs \<noteq> - 1" using Cons.prems by (auto simp: Let_def split: if_splits)
    then have ge: "0 \<le> findIndex P xs" using findIndex_range by blast
    then have n: "nat (findIndex P (x # xs)) = Suc (nat (findIndex P xs))"
      using False nf by (simp add: Let_def)
    have ih: "P (xs ! nat (findIndex P xs))" "\<forall>j < nat (findIndex P xs). \<not> P (xs ! j)"
      using Cons.IH[OF nf] by blast+
    have "\<not> P ((x # xs) ! j)" if "j < Suc (nat (findIndex P xs))" for j
      using that False ih(2) by (cases j) auto
    then show ?thesis unfolding n using ih(1) by simp
  qed
qed

lemma plainId_Number:
  "plainId i \<Longrightarrow> Number_or_0 (drop 1 i) = numericSuffix i \<and> numericSuffix i < 2 ^ 53"
  by (simp add: plainId_def Number_or_0_def numericSuffix_def)

lemma next_number_plain:
  fixes f :: "'a \<Rightarrow> string"
  assumes "plainIds (map f xs)"
  shows "double_plus_1 (foldl (\<lambda>m x. max m (Number_or_0 (drop 1 (f x)))) 0 xs)
           = nextNumber (map f xs)"
proof -
  have pl: "\<And>x. x \<in> set xs \<Longrightarrow> plainId (f x)"
    using assms by (simp add: plainIds_def list_all_iff)
  have small: "foldl (\<lambda>m x. max m (Number_or_0 (drop 1 (f x)))) 0 xs < 2 ^ 53"
    by (rule foldl_max_bound) (use pl plainId_Number in auto)
  have "foldl (\<lambda>m x. max m (Number_or_0 (drop 1 (f x)))) 0 xs
          = Max (insert 0 ((\<lambda>x. Number_or_0 (drop 1 (f x))) ` set xs))"
    by (rule foldl_max_Max)
  also have "(\<lambda>x. Number_or_0 (drop 1 (f x))) ` set xs = numericSuffix ` set (map f xs)"
    using pl plainId_Number by (auto simp: image_iff)
  finally have m: "foldl (\<lambda>m x. max m (Number_or_0 (drop 1 (f x)))) 0 xs
          = Max (insert 0 (numericSuffix ` set (map f xs)))" .
  show ?thesis
    using small unfolding m by (simp add: double_plus_1_def nextNumber_def)
qed

lemma nextContactId_spec:
  "plainIds (map Contact.id cs) \<Longrightarrow>
   nextContactId cs = ''C'' @ zeroPadded (nextNumber (map Contact.id cs)) 5"
  using next_number_plain[of Contact.id cs]
  by (simp add: nextContactId_def zeroPadded_def pad_replicate Let_def)

lemma nextTaskId_spec:
  "plainIds (map Task.id ts) \<Longrightarrow>
   ''T'' @ pad (double_plus_1 (foldl (\<lambda>m t. max m (Number_or_0 (drop 1 (Task.id t)))) 0 ts)) 5
     = ''T'' @ zeroPadded (nextNumber (map Task.id ts)) 5"
  using next_number_plain[of Task.id ts]
  by (simp add: zeroPadded_def pad_replicate)

lemma fresh_id:
  "i \<in> set ids \<Longrightarrow> i \<noteq> p # zeroPadded (nextNumber ids) k"
proof
  assume m: "i \<in> set ids" and e: "i = p # zeroPadded (nextNumber ids) k"
  have "numericSuffix i = nextNumber ids"
    using digitsValue_pad[of "nextNumber ids" k]
    by (simp add: e numericSuffix_def zeroPadded_def pad_replicate)
  moreover have "numericSuffix i \<le> Max (insert 0 (numericSuffix ` set ids))"
    using m by (intro Max_ge) auto
  ultimately show False by (simp add: nextNumber_def)
qed

lemma zeroPadded_1_5: "zeroPadded (Suc 0) 5 = ''00001''"
  by (simp add: zeroPadded_def String_nat.simps digit_unit_def eval_nat_numeral)

lemma nextNumber_Nil: "nextNumber [] = 1"
  by (simp add: nextNumber_def)

lemma createContact_Inr:
  assumes "createContact input w = (Inr c, w')"
  shows "trim (ContactCreateInput.firstName input) \<noteq> []"
    and "trim (ContactCreateInput.lastName input) \<noteq> []"
    and "trim (ContactCreateInput.email input) \<noteq> []"
    and "\<not> list_ex (\<lambda>x. toLowerCase (Contact.email x)
                 = toLowerCase (trim (ContactCreateInput.email input)))
             (contacts_of (ensureSeeded_contacts w))"
    and "c = \<lparr>Contact.id = nextContactId (contacts_of (ensureSeeded_contacts w)),
               firstName = trim (ContactCreateInput.firstName input),
               lastName = trim (ContactCreateInput.lastName input),
               email = trim (ContactCreateInput.email input),
               phone = (case ContactCreateInput.phone input of Some v \<Rightarrow> v | None \<Rightarrow> []),
               company = (case ContactCreateInput.company input of Some v \<Rightarrow> v | None \<Rightarrow> []),
               city = (case ContactCreateInput.city input of Some v \<Rightarrow> v | None \<Rightarrow> []),
               state = (case ContactCreateInput.state input of Some v \<Rightarrow> v | None \<Rightarrow> []),
               tags = (case ContactCreateInput.tags input of Some v \<Rightarrow> v | None \<Rightarrow> []),
               createdAt = clock_reads (ensureSeeded_contacts w) 0,
               lastActivityAt = clock_reads (ensureSeeded_contacts w) 0\<rparr>"
    and "CONTACTS_CACHE w' = Some (c # contacts_of (ensureSeeded_contacts w))"
    and "contacts_file w' = Some (c # contacts_of (ensureSeeded_contacts w))"
  using assms by (auto simp: createContact_eq Let_def split: if_splits)

lemma createTask_Inr:
  assumes "createTask input w = (Inr t, w')"
  shows "\<exists>c w2. getContact (TaskCreateInput.contactId input) (ensureSeeded_tasks w) = (Inr c, w2)
           \<and> \<not> random_draws w2 1 < 0.12
           \<and> Task.createdAt t = clock_reads w2 0"
    and "trim (TaskCreateInput.title input) \<noteq> []"
    and "length (trim (TaskCreateInput.title input)) \<le> 120"
    and "Task.id t = ''T'' @ pad (double_plus_1 (foldl (\<lambda>m t. max m (Number_or_0 (drop 1 (Task.id t)))) 0
                        (tasks_of (ensureSeeded_tasks w)))) 5"
    and "Task.contactId t = TaskCreateInput.contactId input"
    and "Task.title t = trim (TaskCreateInput.title input)"
    and "Task.notes' t = TaskCreateInput.notes' input"
    and "Task.dueDate t = TaskCreateInput.dueDate input"
    and "Task.completed t = False"
    and "Task.priority t = (case TaskCreateInput.priority input of Some v \<Rightarrow> v | None \<Rightarrow> medium)"
    and "Task.updatedAt t = Task.createdAt t"
    and "TASKS_CACHE w' = Some (tasks_of (ensureSeeded_tasks w) @ [t])"
    and "tasks_file w' = Some (tasks_of (ensureSeeded_tasks w) @ [t])"
proof -
  obtain found w2 where g: "getContact (TaskCreateInput.contactId input) (ensureSeeded_tasks w) = (found, w2)"
    by (cases "getContact (TaskCreateInput.contactId input) (ensureSeeded_tasks w)") blast
  note e = createTask_eq[OF g]
  from assms obtain c where f: "found = Inr c"
    unfolding e by (cases found) auto
  have v: "trim (TaskCreateInput.title input) \<noteq> []"
      "length (trim (TaskCreateInput.title input)) \<le> 120"
      "\<not> random_draws w2 1 < 0.12"
    using assms unfolding e f by (auto split: if_splits)
  let ?ts = "tasks_of (ensureSeeded_tasks w)"
  let ?task = "\<lparr>Task.id = ''T'' @ pad (double_plus_1 (foldl (\<lambda>m t. max m (Number_or_0 (drop 1 (Task.id t)))) 0 ?ts)) 5,
                         contactId = TaskCreateInput.contactId input,
                         title = trim (TaskCreateInput.title input),
                         notes' = TaskCreateInput.notes' input,
                         dueDate = TaskCreateInput.dueDate input,
                         completed = False,
                         priority = (case TaskCreateInput.priority input of
                                       Some v \<Rightarrow> v | None \<Rightarrow> medium),
                         createdAt = clock_reads w2 0, updatedAt = clock_reads w2 0\<rparr>"
  have t: "t = ?task" and w: "w' = w2\<lparr>random_draws := (\<lambda>n. random_draws w2 (Suc (Suc n))),
                    clock_reads := (\<lambda>n. clock_reads w2 (Suc n)),
                    TASKS_CACHE := Some (?ts @ [?task]),
                    tasks_file := Some (?ts @ [?task])\<rparr>"
    using assms v unfolding e f by (auto simp: Let_def)
  show "\<exists>c w2. getContact (TaskCreateInput.contactId input) (ensureSeeded_tasks w) = (Inr c, w2)
           \<and> \<not> random_draws w2 1 < 0.12
           \<and> Task.createdAt t = clock_reads w2 0"
    using g f v(3) t by auto
  show "trim (TaskCreateInput.title input) \<noteq> []" by (rule v(1))
  show "length (trim (TaskCreateInput.title input)) \<le> 120" by (rule v(2))
  show "Task.id t = ''T'' @ pad (double_plus_1 (foldl (\<lambda>m t. max m (Number_or_0 (drop 1 (Task.id t)))) 0
                        ?ts)) 5"
    unfolding t by simp
  show "Task.contactId t = TaskCreateInput.contactId input" unfolding t by simp
  show "Task.title t = trim (TaskCreateInput.title input)" unfolding t by simp
  show "Task.notes' t = TaskCreateInput.notes' input" unfolding t by simp
  show "Task.dueDate t = TaskCreateInput.dueDate input" unfolding t by simp
  show "Task.completed t = False" unfolding t by simp
  show "Task.priority t = (case TaskCreateInput.priority input of Some v \<Rightarrow> v | None \<Rightarrow> medium)"
    unfolding t by simp
  show "Task.updatedAt t = Task.createdAt t" unfolding t by simp
  show "TASKS_CACHE w' = Some (?ts @ [t])" unfolding w t by simp
  show "tasks_file w' = Some (?ts @ [t])" unfolding w t by simp
qed

subsection \<open>The example state\<close>

lemma example_seeded_contacts: "ensureSeeded_contacts (example_world rs) = example_world rs"
  by (simp add: ensureSeeded_contacts_def example_world_def)

lemma example_seeded_tasks: "ensureSeeded_tasks (example_world rs) = example_world rs"
  by (simp add: ensureSeeded_tasks_def example_world_def)

lemma example_contacts_of:
  "contacts_of (example_world rs) = [contact_cy, contact_bob, contact_ada]"
  by (simp add: contacts_of_def example_world_def)

lemma example_tasks_of: "tasks_of (example_world rs) = [task_call, task_mail]"
  by (simp add: tasks_of_def example_world_def)

lemma example_fields:
  "random_draws (example_world rs) = rs"
  "clock_reads (example_world rs) n = 10000 + int n"
  "TASKS_CACHE (example_world rs) = Some [task_call, task_mail]"
  "tasks_file (example_world rs) = Some [task_call, task_mail]"
  "CONTACTS_CACHE (example_world rs) = Some [contact_cy, contact_bob, contact_ada]"
  "contacts_file (example_world rs) = Some [contact_cy, contact_bob, contact_ada]"
  by (simp_all add: example_world_def)

lemma example_redraw:
  "(example_world rs)\<lparr>random_draws := rs'\<rparr> = example_world rs'"
  by (simp add: example_world_def)

lemma example_createContact:
  "fst (createContact input_dee (example_world rs)) = Inr contact_dee"
proof -
  have nodup: "\<not> list_ex (\<lambda>c. toLowerCase (Contact.email c) = toLowerCase ''dee@w.com'')
     [contact_cy, contact_bob, contact_ada]"
    by code_simp
  have tr: "trim '' Dee '' = ''Dee''" "trim ''Dune'' = ''Dune''" "trim ''dee@w.com'' = ''dee@w.com''"
    by (simp_all add: trim_def isWhiteSpace_def)
  have nx: "nextContactId [contact_cy, contact_bob, contact_ada] = ''C00004''"
    by (simp add: nextContactId_def contact_cy_def contact_bob_def contact_ada_def Number_or_0_def
      isDigit_def digitsValue_def pad_def pad_loop.simps String_nat.simps digit_unit_def
      double_plus_1_def)
  show ?thesis
    using nodup
    by (simp add: createContact_eq example_seeded_contacts example_contacts_of example_fields
        input_dee_def contact_dee_def tr nx Let_def)
qed

lemma example_getContact:
  "\<not> rs 1 < 0.05 \<Longrightarrow>
   getContact ''C00001'' (example_world rs) = (Inr contact_ada, example_world (\<lambda>n. rs (Suc (Suc n))))"
  by (simp add: getContact_eq example_seeded_contacts example_contacts_of example_fields
      example_redraw Let_def contact_cy_def contact_bob_def contact_ada_def)

lemma example_createTask:
  assumes "\<not> rs 1 < 0.05" "\<not> rs 3 < 0.12"
  shows "fst (createTask input_callback (example_world rs)) = Inr task_callback"
proof -
  have g: "getContact (TaskCreateInput.contactId input_callback) (ensureSeeded_tasks (example_world rs))
     = (Inr contact_ada, example_world (\<lambda>n. rs (Suc (Suc n))))"
    using example_getContact[of rs, OF assms(1)] by (simp add: input_callback_def example_seeded_tasks)
  have tr: "trim '' Call back '' = ''Call back''"
    by (simp add: trim_def isWhiteSpace_def)
  show ?thesis
    unfolding createTask_eq[OF g] using assms(2)
    by (simp add: example_seeded_tasks example_tasks_of example_fields
        input_callback_def task_callback_def tr Let_def numeral_3_eq_3
        task_call_def task_mail_def Number_or_0_def isDigit_def digitsValue_def pad_def
        pad_loop.simps String_nat.simps digit_unit_def double_plus_1_def)
qed

lemma example_plainIds:
  "plainIds (map Contact.id [contact_cy, contact_bob, contact_ada])"
  "plainIds (map Task.id [task_call, task_mail])"
  by (simp_all add: plainIds_def plainId_def isDigit_def digitsValue_def
      contact_cy_def contact_bob_def contact_ada_def task_call_def task_mail_def)

subsection \<open>A state whose largest id number is \<open>2^53\<close>\<close>

lemma big_seeded_contacts: "ensureSeeded_contacts (big_world rs) = big_world rs"
  by (simp add: ensureSeeded_contacts_def big_world_def)

lemma big_seeded_tasks: "ensureSeeded_tasks (big_world rs) = big_world rs"
  by (simp add: ensureSeeded_tasks_def big_world_def)

lemma big_contacts_of: "contacts_of (big_world rs) = [contact_big, contact_ada]"
  by (simp add: contacts_of_def big_world_def)

lemma big_tasks_of: "tasks_of (big_world rs) = [task_call, task_big]"
  by (simp add: tasks_of_def big_world_def)

lemma big_fields:
  "random_draws (big_world rs) = rs"
  "clock_reads (big_world rs) n = 10000 + int n"
  by (simp_all add: big_world_def)

lemma big_redraw: "(big_world rs)\<lparr>random_draws := rs'\<rparr> = big_world rs'"
  by (simp add: big_world_def)

lemma big_ids:
  "Contact.id contact_big = ''C9007199254740992''" "Contact.id contact_ada = ''C00001''"
  "Task.id task_call = ''T00001''" "Task.id task_big = ''T9007199254740992''"
  by (simp_all add: contact_big_def contact_ada_def task_call_def task_big_def)

lemma String_nat_2_53: "String_nat 9007199254740992 = ''9007199254740992''"
  by (simp add: String_nat.simps digit_unit_def)

lemma pad_2_53: "pad 9007199254740992 5 = ''9007199254740992''"
  by (simp add: pad_def String_nat_2_53 pad_loop.simps)

lemma big_createContact:
  "fst (createContact input_dee (big_world rs))
     = Inr (contact_dee\<lparr>Contact.id := ''C9007199254740992''\<rparr>)"
proof -
  have nodup: "\<not> list_ex (\<lambda>c. toLowerCase (Contact.email c) = toLowerCase ''dee@w.com'')
     [contact_big, contact_ada]"
    by code_simp
  have tr: "trim '' Dee '' = ''Dee''" "trim ''Dune'' = ''Dune''" "trim ''dee@w.com'' = ''dee@w.com''"
    by (simp_all add: trim_def isWhiteSpace_def)
  have nx: "nextContactId [contact_big, contact_ada] = ''C9007199254740992''"
    by (simp add: nextContactId_def big_ids Number_or_0_def isDigit_def digitsValue_def
        double_plus_1_def pad_2_53)
  show ?thesis
    using nodup
    by (simp add: createContact_eq big_seeded_contacts big_contacts_of big_fields
        input_dee_def contact_dee_def tr nx Let_def)
qed

lemma big_getContact:
  "\<not> rs 1 < 0.05 \<Longrightarrow>
   getContact ''C00001'' (big_world rs) = (Inr contact_ada, big_world (\<lambda>n. rs (Suc (Suc n))))"
  by (simp add: getContact_eq big_seeded_contacts big_contacts_of big_fields
      big_redraw Let_def big_ids)

lemma big_createTask:
  assumes "\<not> rs 1 < 0.05" "\<not> rs 3 < 0.12"
  shows "fst (createTask input_callback (big_world rs))
           = Inr (task_callback\<lparr>Task.id := ''T9007199254740992''\<rparr>)"
proof -
  have g: "getContact (TaskCreateInput.contactId input_callback) (ensureSeeded_tasks (big_world rs))
     = (Inr contact_ada, big_world (\<lambda>n. rs (Suc (Suc n))))"
    using big_getContact[of rs, OF assms(1)] by (simp add: input_callback_def big_seeded_tasks)
  have tr: "trim '' Call back '' = ''Call back''"
    by (simp add: trim_def isWhiteSpace_def)
  show ?thesis
    unfolding createTask_eq[OF g] using assms(2)
    by (simp add: big_seeded_tasks big_tasks_of big_fields
        input_callback_def task_callback_def tr Let_def numeral_3_eq_3
        big_ids Number_or_0_def isDigit_def digitsValue_def double_plus_1_def pad_2_53)
qed

lemma big_nextNumber:
  "nextNumber [''C9007199254740992'', ''C00001''] = 9007199254740993"
  "nextNumber [''T00001'', ''T9007199254740992''] = 9007199254740993"
  by (simp_all add: nextNumber_def numericSuffix_def digitsValue_def)

lemma zeroPadded_2_53_1: "zeroPadded 9007199254740993 5 = ''9007199254740993''"
  by (simp add: zeroPadded_def String_nat.simps digit_unit_def)

section \<open>Id allocation\<close>

text \<open>
  Claim C7, amended. When every id stored in the collection is one character followed
  by decimal digits that denote a number below \<open>2^53\<close>, the id a creation assigns is the
  prefix (\<open>C\<close> for a contact, \<open>T\<close> for a task) followed by the zero-padded value of
  1 + the largest numeric suffix among the records of the collection (0 when it is empty,
  so the first id is number 1 again), and it differs from the id of every record already
  in the collection.
\<close>

theorem id_allocation:
  "(createContact input w = (Inr c, w')
      \<and> plainIds (map Contact.id (contacts_of (ensureSeeded_contacts w))) \<longrightarrow>
      Contact.id c
        = ''C'' @ zeroPadded (nextNumber (map Contact.id (contacts_of (ensureSeeded_contacts w)))) 5
      \<and> Contact.id c \<notin> set (map Contact.id (contacts_of (ensureSeeded_contacts w)))
      \<and> (contacts_of (ensureSeeded_contacts w) = [] \<longrightarrow> Contact.id c = ''C00001''))
   \<and> (createTask tinput tw = (Inr t, tw')
      \<and> plainIds (map Task.id (tasks_of (ensureSeeded_tasks tw))) \<longrightarrow>
      Task.id t
        = ''T'' @ zeroPadded (nextNumber (map Task.id (tasks_of (ensureSeeded_tasks tw)))) 5
      \<and> Task.id t \<notin> set (map Task.id (tasks_of (ensureSeeded_tasks tw)))
      \<and> (tasks_of (ensureSeeded_tasks tw) = [] \<longrightarrow> Task.id t = ''T00001''))"
proof -
  have contacts: "Contact.id c
        = ''C'' @ zeroPadded (nextNumber (map Contact.id (contacts_of (ensureSeeded_contacts w)))) 5
      \<and> Contact.id c \<notin> set (map Contact.id (contacts_of (ensureSeeded_contacts w)))
      \<and> (contacts_of (ensureSeeded_contacts w) = [] \<longrightarrow> Contact.id c = ''C00001'')"
    if run: "createContact input w = (Inr c, w')"
      and plain: "plainIds (map Contact.id (contacts_of (ensureSeeded_contacts w)))"
  proof -
    let ?ids = "map Contact.id (contacts_of (ensureSeeded_contacts w))"
    have i: "Contact.id c = ''C'' @ zeroPadded (nextNumber ?ids) 5"
      using createContact_Inr(5)[OF run] nextContactId_spec[OF plain] by simp
    have "\<And>x. x \<in> set ?ids \<Longrightarrow> x \<noteq> CHR ''C'' # zeroPadded (nextNumber ?ids) 5"
      by (rule fresh_id)
    then have f: "Contact.id c \<notin> set ?ids" using i by auto
    have "contacts_of (ensureSeeded_contacts w) = [] \<Longrightarrow> Contact.id c = ''C00001''"
      using i by (simp add: nextNumber_Nil zeroPadded_1_5)
    then show ?thesis using i f by blast
  qed
  have tasks: "Task.id t
        = ''T'' @ zeroPadded (nextNumber (map Task.id (tasks_of (ensureSeeded_tasks tw)))) 5
      \<and> Task.id t \<notin> set (map Task.id (tasks_of (ensureSeeded_tasks tw)))
      \<and> (tasks_of (ensureSeeded_tasks tw) = [] \<longrightarrow> Task.id t = ''T00001'')"
    if run: "createTask tinput tw = (Inr t, tw')"
      and plain: "plainIds (map Task.id (tasks_of (ensureSeeded_tasks tw)))"
  proof -
    let ?ids = "map Task.id (tasks_of (ensureSeeded_tasks tw))"
    have i: "Task.id t = ''T'' @ zeroPadded (nextNumber ?ids) 5"
      using createTask_Inr(4)[OF run] nextTaskId_spec[OF plain] by simp
    have "\<And>x. x \<in> set ?ids \<Longrightarrow> x \<noteq> CHR ''T'' # zeroPadded (nextNumber ?ids) 5"
      by (rule fresh_id)
    then have f: "Task.id t \<notin> set ?ids" using i by auto
    have "tasks_of (ensureSeeded_tasks tw) = [] \<Longrightarrow> Task.id t = ''T00001''"
      using i by (simp add: nextNumber_Nil zeroPadded_1_5)
    then show ?thesis using i f by blast
  qed
  show ?thesis using contacts tasks by blast
qed

text \<open>An instance: with contacts 1 to 3 and tasks 1 and 2 stored, the new contact is
  \<open>C00004\<close> and the new task \<open>T00003\<close>.\<close>

theorem id_allocation_witness:
  "fst (createContact input_dee (example_world (\<lambda>n. 0.99))) = Inr contact_dee
   \<and> plainIds (map Contact.id [contact_cy, contact_bob, contact_ada])
   \<and> Contact.id contact_dee = ''C00004''
   \<and> Contact.id contact_dee \<notin> set (map Contact.id [contact_cy, contact_bob, contact_ada])
   \<and> fst (createTask input_callback (example_world (\<lambda>n. 0.99))) = Inr task_callback
   \<and> plainIds (map Task.id [task_call, task_mail])
   \<and> Task.id task_callback = ''T00003''
   \<and> Task.id task_callback \<notin> set (map Task.id [task_call, task_mail])"
proof -
  let ?w = "example_world (\<lambda>n. 0.99)"
  have c: "fst (createContact input_dee ?w) = Inr contact_dee"
    by (rule example_createContact)
  have t: "fst (createTask input_callback ?w) = Inr task_callback"
    by (rule example_createTask) simp_all
  have pc: "plainIds (map Contact.id (contacts_of (ensureSeeded_contacts ?w)))"
    using example_plainIds by (simp add: example_seeded_contacts example_contacts_of)
  have pt: "plainIds (map Task.id (tasks_of (ensureSeeded_tasks ?w)))"
    using example_plainIds by (simp add: example_seeded_tasks example_tasks_of)
  note law = id_allocation[of input_dee ?w contact_dee "snd (createContact input_dee ?w)"
      input_callback ?w task_callback "snd (createTask input_callback ?w)"]
  from law run_pair[OF c] pc
  have "Contact.id contact_dee \<notin> set (map Contact.id (contacts_of (ensureSeeded_contacts ?w)))"
    by blast
  then have a: "Contact.id contact_dee \<notin> set (map Contact.id [contact_cy, contact_bob, contact_ada])"
    by (simp add: example_seeded_contacts example_contacts_of)
  from law run_pair[OF t] pt
  have "Task.id task_callback \<notin> set (map Task.id (tasks_of (ensureSeeded_tasks ?w)))"
    by blast
  then have b: "Task.id task_callback \<notin> set (map Task.id [task_call, task_mail])"
    by (simp add: example_seeded_tasks example_tasks_of)
  have i: "Contact.id contact_dee = ''C00004''" "Task.id task_callback = ''T00003''"
    by (simp_all add: contact_dee_def task_callback_def)
  show ?thesis using a b c t i example_plainIds by blast
qed

text \<open>As stated, for every collection state, the claim fails: with a stored record
  whose id number is \<open>2^53\<close> the largest suffix is \<open>2^53\<close>, adding 1 to it gives \<open>2^53\<close>
  again, and the creation returns the id that record has, where 1 + the largest suffix is
  the number \<open>2^53 + 1\<close>.\<close>

theorem id_allocation_reissued_id_counterexample:
  "fst (createContact input_dee (big_world (\<lambda>n. 0.99)))
     = Inr (contact_dee\<lparr>Contact.id := ''C9007199254740992''\<rparr>)
   \<and> map Contact.id (contacts_of (ensureSeeded_contacts (big_world (\<lambda>n. 0.99))))
       = [''C9007199254740992'', ''C00001'']
   \<and> ''C'' @ zeroPadded (nextNumber [''C9007199254740992'', ''C00001'']) 5
       = ''C9007199254740993''
   \<and> fst (createTask input_callback (big_world (\<lambda>n. 0.99)))
       = Inr (task_callback\<lparr>Task.id := ''T9007199254740992''\<rparr>)
   \<and> map Task.id (tasks_of (ensureSeeded_tasks (big_world (\<lambda>n. 0.99))))
       = [''T00001'', ''T9007199254740992'']
   \<and> ''T'' @ zeroPadded (nextNumber [''T00001'', ''T9007199254740992'']) 5
       = ''T9007199254740993''"
proof -
  let ?w = "big_world (\<lambda>n. 0.99)"
  have c: "fst (createContact input_dee ?w) = Inr (contact_dee\<lparr>Contact.id := ''C9007199254740992''\<rparr>)"
    by (rule big_createContact)
  have t: "fst (createTask input_callback ?w) = Inr (task_callback\<lparr>Task.id := ''T9007199254740992''\<rparr>)"
    by (rule big_createTask) simp_all
  have a: "map Contact.id (contacts_of (ensureSeeded_contacts ?w)) = [''C9007199254740992'', ''C00001'']"
    by (simp add: big_seeded_contacts big_contacts_of big_ids)
  have b: "map Task.id (tasks_of (ensureSeeded_tasks ?w)) = [''T00001'', ''T9007199254740992'']"
    by (simp add: big_seeded_tasks big_tasks_of big_ids)
  have n: "''C'' @ zeroPadded (nextNumber [''C9007199254740992'', ''C00001'']) 5 = ''C9007199254740993''"
    "''T'' @ zeroPadded (nextNumber [''T00001'', ''T9007199254740992'']) 5 = ''T9007199254740993''"
    by (simp_all add: big_nextNumber zeroPadded_2_53_1)
  show ?thesis using a b c t n by blast
qed

section \<open>Creation\<close>

text \<open>
  Claim C5, amended. A creation validates the required fields (a blank required field
  gives a validation error), stamps both timestamps with the clock value it read, and
  persists the full list; \<open>createTask\<close> appends the new task at the end of the in-memory
  collection, and \<open>createContact\<close> puts the new contact at the front of it, the records
  stored before keeping their relative order behind it. The id it assigns is one no
  stored record has when every stored id is one character followed by decimal digits
  that denote a number below \<open>2^53\<close>.
\<close>

theorem create_record:
  "(createContact input w = (Inr c, w') \<longrightarrow>
      Contact.firstName c = trim (ContactCreateInput.firstName input) \<and> Contact.firstName c \<noteq> []
      \<and> Contact.lastName c = trim (ContactCreateInput.lastName input) \<and> Contact.lastName c \<noteq> []
      \<and> Contact.email c = trim (ContactCreateInput.email input) \<and> Contact.email c \<noteq> []
      \<and> (plainIds (map Contact.id (contacts_of (ensureSeeded_contacts w))) \<longrightarrow>
           Contact.id c \<notin> set (map Contact.id (contacts_of (ensureSeeded_contacts w))))
      \<and> Contact.createdAt c = clock_reads (ensureSeeded_contacts w) 0
      \<and> Contact.lastActivityAt c = Contact.createdAt c
      \<and> CONTACTS_CACHE w' = Some (c # contacts_of (ensureSeeded_contacts w))
      \<and> contacts_file w' = Some (c # contacts_of (ensureSeeded_contacts w)))
   \<and> (createTask tinput tw = (Inr t, tw') \<longrightarrow>
      Task.title t = trim (TaskCreateInput.title tinput) \<and> Task.title t \<noteq> []
      \<and> length (Task.title t) \<le> 120
      \<and> (\<exists>k v. getContact (TaskCreateInput.contactId tinput) (ensureSeeded_tasks tw) = (Inr k, v)
                 \<and> Task.createdAt t = clock_reads v 0)
      \<and> Task.updatedAt t = Task.createdAt t
      \<and> (plainIds (map Task.id (tasks_of (ensureSeeded_tasks tw))) \<longrightarrow>
           Task.id t \<notin> set (map Task.id (tasks_of (ensureSeeded_tasks tw))))
      \<and> TASKS_CACHE tw' = Some (tasks_of (ensureSeeded_tasks tw) @ [t])
      \<and> tasks_file tw' = Some (tasks_of (ensureSeeded_tasks tw) @ [t]))
   \<and> (trim (ContactCreateInput.firstName input) = []
         \<or> trim (ContactCreateInput.lastName input) = []
         \<or> trim (ContactCreateInput.email input) = [] \<longrightarrow>
       fst (createContact input w) = Inl ''ValidationError: firstName, lastName, email required'')
   \<and> (trim (TaskCreateInput.title tinput) = [] \<or> 120 < length (trim (TaskCreateInput.title tinput)) \<longrightarrow>
       (\<exists>e. fst (createTask tinput tw) = Inl e \<and> startsWith e ''ValidationError''))"
proof -
  have contacts: "Contact.firstName c = trim (ContactCreateInput.firstName input) \<and> Contact.firstName c \<noteq> []
      \<and> Contact.lastName c = trim (ContactCreateInput.lastName input) \<and> Contact.lastName c \<noteq> []
      \<and> Contact.email c = trim (ContactCreateInput.email input) \<and> Contact.email c \<noteq> []
      \<and> (plainIds (map Contact.id (contacts_of (ensureSeeded_contacts w))) \<longrightarrow>
           Contact.id c \<notin> set (map Contact.id (contacts_of (ensureSeeded_contacts w))))
      \<and> Contact.createdAt c = clock_reads (ensureSeeded_contacts w) 0
      \<and> Contact.lastActivityAt c = Contact.createdAt c
      \<and> CONTACTS_CACHE w' = Some (c # contacts_of (ensureSeeded_contacts w))
      \<and> contacts_file w' = Some (c # contacts_of (ensureSeeded_contacts w))"
    if run: "createContact input w = (Inr c, w')"
  proof -
    note d = createContact_Inr[OF run]
    let ?ids = "map Contact.id (contacts_of (ensureSeeded_contacts w))"
    have f: "Contact.id c \<notin> set ?ids" if plain: "plainIds ?ids"
    proof -
      have i: "Contact.id c = ''C'' @ zeroPadded (nextNumber ?ids) 5"
        using d(5) nextContactId_spec[OF plain] by simp
      have "\<And>x. x \<in> set ?ids \<Longrightarrow> x \<noteq> CHR ''C'' # zeroPadded (nextNumber ?ids) 5"
        by (rule fresh_id)
      then show ?thesis using i by auto
    qed
    have fields: "Contact.firstName c = trim (ContactCreateInput.firstName input)"
      "Contact.lastName c = trim (ContactCreateInput.lastName input)"
      "Contact.email c = trim (ContactCreateInput.email input)"
      "Contact.createdAt c = clock_reads (ensureSeeded_contacts w) 0"
      "Contact.lastActivityAt c = Contact.createdAt c"
      unfolding d(5) by simp_all
    show ?thesis using fields d(1,2,3,6,7) f by simp
  qed
  have tasks: "Task.title t = trim (TaskCreateInput.title tinput) \<and> Task.title t \<noteq> []
      \<and> length (Task.title t) \<le> 120
      \<and> (\<exists>k v. getContact (TaskCreateInput.contactId tinput) (ensureSeeded_tasks tw) = (Inr k, v)
                 \<and> Task.createdAt t = clock_reads v 0)
      \<and> Task.updatedAt t = Task.createdAt t
      \<and> (plainIds (map Task.id (tasks_of (ensureSeeded_tasks tw))) \<longrightarrow>
           Task.id t \<notin> set (map Task.id (tasks_of (ensureSeeded_tasks tw))))
      \<and> TASKS_CACHE tw' = Some (tasks_of (ensureSeeded_tasks tw) @ [t])
      \<and> tasks_file tw' = Some (tasks_of (ensureSeeded_tasks tw) @ [t])"
    if run: "createTask tinput tw = (Inr t, tw')"
  proof -
    note d = createTask_Inr[OF run]
    let ?ids = "map Task.id (tasks_of (ensureSeeded_tasks tw))"
    have f: "Task.id t \<notin> set ?ids" if plain: "plainIds ?ids"
    proof -
      have i: "Task.id t = ''T'' @ zeroPadded (nextNumber ?ids) 5"
        using d(4) nextTaskId_spec[OF plain] by simp
      have "\<And>x. x \<in> set ?ids \<Longrightarrow> x \<noteq> CHR ''T'' # zeroPadded (nextNumber ?ids) 5"
        by (rule fresh_id)
      then show ?thesis using i by auto
    qed
    have g: "\<exists>k v. getContact (TaskCreateInput.contactId tinput) (ensureSeeded_tasks tw) = (Inr k, v)
                 \<and> Task.createdAt t = clock_reads v 0"
      using d(1) by blast
    show ?thesis using d(2,3,6,11,12,13) f g by simp
  qed
  have cval: "fst (createContact input w) = Inl ''ValidationError: firstName, lastName, email required''"
    if "trim (ContactCreateInput.firstName input) = []
         \<or> trim (ContactCreateInput.lastName input) = []
         \<or> trim (ContactCreateInput.email input) = []"
    using that by (auto simp: createContact_eq Let_def)
  have tval: "\<exists>e. fst (createTask tinput tw) = Inl e \<and> startsWith e ''ValidationError''"
    if bad: "trim (TaskCreateInput.title tinput) = [] \<or> 120 < length (trim (TaskCreateInput.title tinput))"
  proof -
    obtain found v where g: "getContact (TaskCreateInput.contactId tinput) (ensureSeeded_tasks tw) = (found, v)"
      by (cases "getContact (TaskCreateInput.contactId tinput) (ensureSeeded_tasks tw)") blast
    show ?thesis
      unfolding createTask_eq[OF g] using bad
      by (cases found) (auto simp: startsWith_def)
  qed
  show ?thesis using contacts tasks cval tval by blast
qed

text \<open>An instance: a contact and a task created in the example state, and the two
  inputs with a blank first name and a blank title.\<close>

theorem create_record_witness:
  "fst (createContact input_dee (example_world (\<lambda>n. 0.99))) = Inr contact_dee
   \<and> plainIds (map Contact.id [contact_cy, contact_bob, contact_ada])
   \<and> Contact.id contact_dee \<notin> set (map Contact.id [contact_cy, contact_bob, contact_ada])
   \<and> CONTACTS_CACHE (snd (createContact input_dee (example_world (\<lambda>n. 0.99))))
       = Some [contact_dee, contact_cy, contact_bob, contact_ada]
   \<and> contacts_file (snd (createContact input_dee (example_world (\<lambda>n. 0.99))))
       = Some [contact_dee, contact_cy, contact_bob, contact_ada]
   \<and> fst (createTask input_callback (example_world (\<lambda>n. 0.99))) = Inr task_callback
   \<and> plainIds (map Task.id [task_call, task_mail])
   \<and> Task.id task_callback \<notin> set (map Task.id [task_call, task_mail])
   \<and> TASKS_CACHE (snd (createTask input_callback (example_world (\<lambda>n. 0.99))))
       = Some [task_call, task_mail, task_callback]
   \<and> tasks_file (snd (createTask input_callback (example_world (\<lambda>n. 0.99))))
       = Some [task_call, task_mail, task_callback]
   \<and> fst (createContact (input_dee\<lparr>ContactCreateInput.firstName := ''  ''\<rparr>)
            (example_world (\<lambda>n. 0.99)))
       = Inl ''ValidationError: firstName, lastName, email required''
   \<and> (\<exists>e. fst (createTask (input_callback\<lparr>TaskCreateInput.title := ''  ''\<rparr>)
                 (example_world (\<lambda>n. 0.99))) = Inl e
          \<and> startsWith e ''ValidationError'')"
proof -
  let ?w = "example_world (\<lambda>n. 0.99)"
  let ?bc = "input_dee\<lparr>ContactCreateInput.firstName := ''  ''\<rparr>"
  let ?bt = "input_callback\<lparr>TaskCreateInput.title := ''  ''\<rparr>"
  have c: "fst (createContact input_dee ?w) = Inr contact_dee"
    by (rule example_createContact)
  have t: "fst (createTask input_callback ?w) = Inr task_callback"
    by (rule example_createTask) simp_all
  note law = create_record[of input_dee ?w contact_dee "snd (createContact input_dee ?w)"
      input_callback ?w task_callback "snd (createTask input_callback ?w)"]
  from law run_pair[OF c]
  have "CONTACTS_CACHE (snd (createContact input_dee ?w))
          = Some (contact_dee # contacts_of (ensureSeeded_contacts ?w))
      \<and> contacts_file (snd (createContact input_dee ?w))
          = Some (contact_dee # contacts_of (ensureSeeded_contacts ?w))"
    by blast
  then have a: "CONTACTS_CACHE (snd (createContact input_dee ?w))
          = Some [contact_dee, contact_cy, contact_bob, contact_ada]
      \<and> contacts_file (snd (createContact input_dee ?w))
          = Some [contact_dee, contact_cy, contact_bob, contact_ada]"
    by (simp add: example_seeded_contacts example_contacts_of)
  from law run_pair[OF t]
  have "TASKS_CACHE (snd (createTask input_callback ?w))
          = Some (tasks_of (ensureSeeded_tasks ?w) @ [task_callback])
      \<and> tasks_file (snd (createTask input_callback ?w))
          = Some (tasks_of (ensureSeeded_tasks ?w) @ [task_callback])"
    by blast
  then have b: "TASKS_CACHE (snd (createTask input_callback ?w))
          = Some [task_call, task_mail, task_callback]
      \<and> tasks_file (snd (createTask input_callback ?w))
          = Some [task_call, task_mail, task_callback]"
    by (simp add: example_seeded_tasks example_tasks_of)
  have pc: "plainIds (map Contact.id (contacts_of (ensureSeeded_contacts ?w)))"
    using example_plainIds by (simp add: example_seeded_contacts example_contacts_of)
  from law run_pair[OF c] pc
  have "Contact.id contact_dee \<notin> set (map Contact.id (contacts_of (ensureSeeded_contacts ?w)))"
    by blast
  then have fc: "Contact.id contact_dee \<notin> set (map Contact.id [contact_cy, contact_bob, contact_ada])"
    by (simp add: example_seeded_contacts example_contacts_of)
  have pt: "plainIds (map Task.id (tasks_of (ensureSeeded_tasks ?w)))"
    using example_plainIds by (simp add: example_seeded_tasks example_tasks_of)
  from law run_pair[OF t] pt
  have "Task.id task_callback \<notin> set (map Task.id (tasks_of (ensureSeeded_tasks ?w)))"
    by blast
  then have ft: "Task.id task_callback \<notin> set (map Task.id [task_call, task_mail])"
    by (simp add: example_seeded_tasks example_tasks_of)
  have blank: "trim ''  '' = []"
    by (simp add: trim_def isWhiteSpace_def)
  note law2 = create_record[of ?bc ?w _ _ ?bt ?w]
  have v1: "fst (createContact ?bc ?w)
       = Inl ''ValidationError: firstName, lastName, email required''"
    using law2 by (simp add: blank)
  have v2: "\<exists>e. fst (createTask ?bt ?w) = Inl e \<and> startsWith e ''ValidationError''"
    using law2 by (simp add: blank)
  show ?thesis using a b c t v1 v2 fc ft example_plainIds by blast
qed

text \<open>As stated, the claim fails twice. The contact created in the example state
  is the first record of the cache, not the last. And the id is not always fresh: in a
  state that stores a contact whose id number is \<open>2^53\<close>, the new contact gets the id of
  that contact.\<close>

theorem create_record_counterexample:
  "fst (createContact input_dee (example_world (\<lambda>n. 0.99))) = Inr contact_dee
   \<and> CONTACTS_CACHE (snd (createContact input_dee (example_world (\<lambda>n. 0.99))))
       = Some (contact_dee # [contact_cy, contact_bob, contact_ada])
   \<and> CONTACTS_CACHE (snd (createContact input_dee (example_world (\<lambda>n. 0.99))))
       \<noteq> Some ([contact_cy, contact_bob, contact_ada] @ [contact_dee])
   \<and> fst (createContact input_dee (big_world (\<lambda>n. 0.99)))
       = Inr (contact_dee\<lparr>Contact.id := ''C9007199254740992''\<rparr>)
   \<and> Contact.id (contact_dee\<lparr>Contact.id := ''C9007199254740992''\<rparr>)
       \<in> set (map Contact.id (contacts_of (ensureSeeded_contacts (big_world (\<lambda>n. 0.99)))))"
proof -
  let ?w = "example_world (\<lambda>n. 0.99)"
  have c: "fst (createContact input_dee ?w) = Inr contact_dee"
    by (rule example_createContact)
  have a: "CONTACTS_CACHE (snd (createContact input_dee ?w))
          = Some (contact_dee # [contact_cy, contact_bob, contact_ada])"
    using createContact_Inr(6)[OF run_pair[OF c]]
    by (simp add: example_seeded_contacts example_contacts_of)
  have n: "contact_dee \<noteq> contact_cy"
    by (simp add: contact_dee_def contact_cy_def)
  have b: "fst (createContact input_dee (big_world (\<lambda>n. 0.99)))
       = Inr (contact_dee\<lparr>Contact.id := ''C9007199254740992''\<rparr>)"
    by (rule big_createContact)
  have m: "Contact.id (contact_dee\<lparr>Contact.id := ''C9007199254740992''\<rparr>)
       \<in> set (map Contact.id (contacts_of (ensureSeeded_contacts (big_world (\<lambda>n. 0.99)))))"
    by (simp add: big_seeded_contacts big_contacts_of big_ids)
  show ?thesis using a b c m n by simp
qed

section \<open>Facts about updates and failed calls\<close>

lemma updateTask_Inr:
  assumes "updateTask i updates w = (Inr t, w')"
  shows "\<not> random_draws (ensureSeeded_tasks w) 1 < 0.12"
    and "findIndex (\<lambda>x. Task.id x = i) (tasks_of (ensureSeeded_tasks w)) \<noteq> - 1"
    and "t = (tasks_of (ensureSeeded_tasks w)
                ! nat (findIndex (\<lambda>x. Task.id x = i) (tasks_of (ensureSeeded_tasks w))))\<lparr>
             Task.title := (case TaskUpdateInput.title updates of
                         Some v \<Rightarrow> (if trim v \<noteq> [] then trim v
                                    else Task.title (tasks_of (ensureSeeded_tasks w)
                ! nat (findIndex (\<lambda>x. Task.id x = i) (tasks_of (ensureSeeded_tasks w)))))
                       | None \<Rightarrow> Task.title (tasks_of (ensureSeeded_tasks w)
                ! nat (findIndex (\<lambda>x. Task.id x = i) (tasks_of (ensureSeeded_tasks w))))),
             Task.notes' := (case TaskUpdateInput.notes' updates of
                         Some v \<Rightarrow> Some v | None \<Rightarrow> Task.notes' (tasks_of (ensureSeeded_tasks w)
                ! nat (findIndex (\<lambda>x. Task.id x = i) (tasks_of (ensureSeeded_tasks w))))),
             Task.dueDate := (case TaskUpdateInput.dueDate updates of
                         Some v \<Rightarrow> Some v | None \<Rightarrow> Task.dueDate (tasks_of (ensureSeeded_tasks w)
                ! nat (findIndex (\<lambda>x. Task.id x = i) (tasks_of (ensureSeeded_tasks w))))),
             Task.completed := (case TaskUpdateInput.completed updates of
                         Some v \<Rightarrow> v | None \<Rightarrow> Task.completed (tasks_of (ensureSeeded_tasks w)
                ! nat (findIndex (\<lambda>x. Task.id x = i) (tasks_of (ensureSeeded_tasks w))))),
             Task.priority := (case TaskUpdateInput.priority updates of
                         Some v \<Rightarrow> v | None \<Rightarrow> Task.priority (tasks_of (ensureSeeded_tasks w)
                ! nat (findIndex (\<lambda>x. Task.id x = i) (tasks_of (ensureSeeded_tasks w))))),
             Task.updatedAt := clock_reads (ensureSeeded_tasks w) 0\<rparr>"
    and "TASKS_CACHE w' = Some ((tasks_of (ensureSeeded_tasks w))
           [nat (findIndex (\<lambda>x. Task.id x = i) (tasks_of (ensureSeeded_tasks w))) := t])"
    and "tasks_file w' = Some ((tasks_of (ensureSeeded_tasks w))
           [nat (findIndex (\<lambda>x. Task.id x = i) (tasks_of (ensureSeeded_tasks w))) := t])"
  using assms by (auto simp: updateTask_eq Let_def split: if_splits)

lemma updateTask_succeeds:
  assumes "\<not> random_draws (ensureSeeded_tasks w) 1 < 0.12"
    and "findIndex (\<lambda>x. Task.id x = i) (tasks_of (ensureSeeded_tasks w)) \<noteq> - 1"
  shows "\<exists>t w'. updateTask i updates w = (Inr t, w')"
  using assms by (simp add: updateTask_eq Let_def)

lemma createTask_Inl_frame:
  assumes "createTask input w = (Inl e, w')"
  shows "TASKS_CACHE w' = TASKS_CACHE (ensureSeeded_tasks w)
       \<and> tasks_file w' = tasks_file (ensureSeeded_tasks w)"
proof -
  obtain found v where g: "getContact (TaskCreateInput.contactId input) (ensureSeeded_tasks w) = (found, v)"
    by (cases "getContact (TaskCreateInput.contactId input) (ensureSeeded_tasks w)") blast
  note f = getContact_frame[OF g]
  show ?thesis
    using assms f unfolding createTask_eq[OF g]
    by (cases found) (auto simp: Let_def split: if_splits)
qed

lemma updateTask_Inl_frame:
  assumes "updateTask i updates w = (Inl e, w')"
  shows "TASKS_CACHE w' = TASKS_CACHE (ensureSeeded_tasks w)
       \<and> tasks_file w' = tasks_file (ensureSeeded_tasks w)"
  using assms by (auto simp: updateTask_eq Let_def split: if_splits)

lemma deleteTask_Inl_frame:
  assumes "deleteTask i w = (Inl e, w')"
  shows "TASKS_CACHE w' = TASKS_CACHE (ensureSeeded_tasks w)
       \<and> tasks_file w' = tasks_file (ensureSeeded_tasks w)"
  using assms by (auto simp: deleteTask_eq Let_def split: if_splits)

lemma createTask_Inl_message:
  assumes "createTask input w = (Inl e, w')"
  shows "e = ''ValidationError: contact does not exist'' \<or> e = ''ValidationError: title required''
       \<or> e = ''ValidationError: title too long'' \<or> e = ''TransientError: simulate mutation failure''"
proof -
  obtain found v where g: "getContact (TaskCreateInput.contactId input) (ensureSeeded_tasks w) = (found, v)"
    by (cases "getContact (TaskCreateInput.contactId input) (ensureSeeded_tasks w)") blast
  show ?thesis
    using assms unfolding createTask_eq[OF g]
    by (cases found) (auto simp: Let_def split: if_splits)
qed

lemma getContact_transient:
  assumes "random_draws (ensureSeeded_contacts w) 1 < 0.05"
  shows "\<exists>v. getContact i w = (Inl ''TransientError: simulated network failure'', v)"
  using assms by (simp add: getContact_eq Let_def)

lemma createTask_contact_failure:
  assumes "getContact (TaskCreateInput.contactId input) (ensureSeeded_tasks w) = (Inl e, v)"
  shows "createTask input w = (Inl ''ValidationError: contact does not exist'', v)"
  by (simp add: createTask_eq[OF assms])

lemma example_getContact_transient:
  "rs 1 < 0.05 \<Longrightarrow>
   getContact i (example_world rs)
     = (Inl ''TransientError: simulated network failure'', example_world (\<lambda>n. rs (Suc (Suc n))))"
  by (simp add: getContact_eq example_seeded_contacts example_fields example_redraw Let_def)

lemma example_createTask_transient:
  assumes "\<not> rs 1 < 0.05" "rs 3 < 0.12"
  shows "fst (createTask input_callback (example_world rs))
           = Inl ''TransientError: simulate mutation failure''"
proof -
  have g: "getContact (TaskCreateInput.contactId input_callback) (ensureSeeded_tasks (example_world rs))
     = (Inr contact_ada, example_world (\<lambda>n. rs (Suc (Suc n))))"
    using example_getContact[of rs, OF assms(1)] by (simp add: input_callback_def example_seeded_tasks)
  have tr: "trim '' Call back '' = ''Call back''"
    by (simp add: trim_def isWhiteSpace_def)
  show ?thesis
    unfolding createTask_eq[OF g] using assms(2)
    by (simp add: example_fields input_callback_def tr numeral_3_eq_3)
qed

lemma example_task_ids:
  "Task.id task_call = ''T00001''" "Task.id task_mail = ''T00002''"
  by (simp_all add: task_call_def task_mail_def)

lemma example_updateTask_transient:
  "rs 1 < 0.12 \<Longrightarrow>
   fst (updateTask i updates (example_world rs)) = Inl ''TransientError: simulate mutation failure''"
  by (simp add: updateTask_eq example_seeded_tasks example_fields Let_def)

lemma example_deleteTask_transient:
  "rs 1 < 0.12 \<Longrightarrow>
   fst (deleteTask i (example_world rs)) = Inl ''TransientError: simulate mutation failure''"
  by (simp add: deleteTask_eq example_seeded_tasks example_fields Let_def)

lemma example_updateTask:
  "\<not> rs 1 < 0.12 \<Longrightarrow>
   fst (updateTask ''T00001'' update_completed (example_world rs))
     = Inr (task_call\<lparr>Task.completed := True, Task.updatedAt := 10000\<rparr>)"
  by (simp add: updateTask_eq example_seeded_tasks example_tasks_of example_fields
      example_task_ids update_completed_def Let_def)

lemma example_updateTask_blank_title:
  "\<not> rs 1 < 0.12 \<Longrightarrow>
   fst (updateTask ''T00001'' (update_completed\<lparr>TaskUpdateInput.title := Some ''  ''\<rparr>)
          (example_world rs))
     = Inr (task_call\<lparr>Task.completed := True, Task.updatedAt := 10000\<rparr>)"
  by (simp add: updateTask_eq example_seeded_tasks example_tasks_of example_fields
      example_task_ids update_completed_def Let_def trim_def isWhiteSpace_def)

section \<open>Updating a task\<close>

text \<open>
  Claim C6. When \<open>updateTask\<close> returns a task, it is the stored task with that id
  (the first one) with exactly the fields present in the payload replaced and
  \<open>updatedAt\<close> set to the clock value read; with the payload \<open>{completed: true}\<close> the
  result is the stored task with \<open>completed\<close> true and \<open>updatedAt\<close> refreshed, every
  other field as stored. The returned task takes the place of the stored one, at the
  first position that holds the id, in the in-memory collection and in the persisted
  list, every other position as it was. A title that is empty after trimming leaves the
  stored title, and the call returns a task for every payload whenever the id is stored
  and the simulated failure is not drawn.
\<close>

theorem update_task_fields:
  "(updateTask i updates w = (Inr t, w') \<longrightarrow>
      (\<exists>prev. find (\<lambda>x. Task.id x = i) (tasks_of (ensureSeeded_tasks w)) = Some prev
         \<and> Task.id t = Task.id prev
         \<and> Task.contactId t = Task.contactId prev
         \<and> Task.createdAt t = Task.createdAt prev
         \<and> Task.title t = (case TaskUpdateInput.title updates of
                              Some v \<Rightarrow> (if trim v = [] then Task.title prev else trim v)
                            | None \<Rightarrow> Task.title prev)
         \<and> Task.notes' t = (case TaskUpdateInput.notes' updates of
                              Some v \<Rightarrow> Some v | None \<Rightarrow> Task.notes' prev)
         \<and> Task.dueDate t = (case TaskUpdateInput.dueDate updates of
                              Some v \<Rightarrow> Some v | None \<Rightarrow> Task.dueDate prev)
         \<and> Task.completed t = (case TaskUpdateInput.completed updates of
                              Some v \<Rightarrow> v | None \<Rightarrow> Task.completed prev)
         \<and> Task.priority t = (case TaskUpdateInput.priority updates of
                              Some v \<Rightarrow> v | None \<Rightarrow> Task.priority prev)
         \<and> Task.updatedAt t = clock_reads (ensureSeeded_tasks w) 0
         \<and> (updates = update_completed \<longrightarrow>
               t = prev\<lparr>Task.completed := True,
                         Task.updatedAt := clock_reads (ensureSeeded_tasks w) 0\<rparr>)
         \<and> (\<exists>k. k < length (tasks_of (ensureSeeded_tasks w))
                \<and> tasks_of (ensureSeeded_tasks w) ! k = prev
                \<and> (\<forall>j<k. Task.id (tasks_of (ensureSeeded_tasks w) ! j) \<noteq> i)
                \<and> TASKS_CACHE w' = Some ((tasks_of (ensureSeeded_tasks w))[k := t])
                \<and> tasks_file w' = Some ((tasks_of (ensureSeeded_tasks w))[k := t]))))
   \<and> (find (\<lambda>x. Task.id x = i) (tasks_of (ensureSeeded_tasks w)) \<noteq> None
        \<and> \<not> random_draws (ensureSeeded_tasks w) 1 < 0.12 \<longrightarrow>
       (\<exists>r v. updateTask i updates w = (Inr r, v)))"
proof -
  let ?ts = "tasks_of (ensureSeeded_tasks w)"
  let ?idx = "findIndex (\<lambda>x. Task.id x = i) ?ts"
  have fields: "\<exists>prev. find (\<lambda>x. Task.id x = i) ?ts = Some prev
         \<and> Task.id t = Task.id prev
         \<and> Task.contactId t = Task.contactId prev
         \<and> Task.createdAt t = Task.createdAt prev
         \<and> Task.title t = (case TaskUpdateInput.title updates of
                              Some v \<Rightarrow> (if trim v = [] then Task.title prev else trim v)
                            | None \<Rightarrow> Task.title prev)
         \<and> Task.notes' t = (case TaskUpdateInput.notes' updates of
                              Some v \<Rightarrow> Some v | None \<Rightarrow> Task.notes' prev)
         \<and> Task.dueDate t = (case TaskUpdateInput.dueDate updates of
                              Some v \<Rightarrow> Some v | None \<Rightarrow> Task.dueDate prev)
         \<and> Task.completed t = (case TaskUpdateInput.completed updates of
                              Some v \<Rightarrow> v | None \<Rightarrow> Task.completed prev)
         \<and> Task.priority t = (case TaskUpdateInput.priority updates of
                              Some v \<Rightarrow> v | None \<Rightarrow> Task.priority prev)
         \<and> Task.updatedAt t = clock_reads (ensureSeeded_tasks w) 0
         \<and> (updates = update_completed \<longrightarrow>
               t = prev\<lparr>Task.completed := True,
                         Task.updatedAt := clock_reads (ensureSeeded_tasks w) 0\<rparr>)
         \<and> (\<exists>k. k < length ?ts
                \<and> ?ts ! k = prev
                \<and> (\<forall>j<k. Task.id (?ts ! j) \<noteq> i)
                \<and> TASKS_CACHE w' = Some (?ts[k := t])
                \<and> tasks_file w' = Some (?ts[k := t]))"
    if run: "updateTask i updates w = (Inr t, w')"
  proof -
    note d = updateTask_Inr[OF run]
    have f: "find (\<lambda>x. Task.id x = i) ?ts = Some (?ts ! nat ?idx)"
      using d(2) by (simp add: findIndex_find)
    have rest: "Task.id t = Task.id (?ts ! nat ?idx)
         \<and> Task.contactId t = Task.contactId (?ts ! nat ?idx)
         \<and> Task.createdAt t = Task.createdAt (?ts ! nat ?idx)
         \<and> Task.title t = (case TaskUpdateInput.title updates of
                              Some v \<Rightarrow> (if trim v = [] then Task.title (?ts ! nat ?idx) else trim v)
                            | None \<Rightarrow> Task.title (?ts ! nat ?idx))
         \<and> Task.notes' t = (case TaskUpdateInput.notes' updates of
                              Some v \<Rightarrow> Some v | None \<Rightarrow> Task.notes' (?ts ! nat ?idx))
         \<and> Task.dueDate t = (case TaskUpdateInput.dueDate updates of
                              Some v \<Rightarrow> Some v | None \<Rightarrow> Task.dueDate (?ts ! nat ?idx))
         \<and> Task.completed t = (case TaskUpdateInput.completed updates of
                              Some v \<Rightarrow> v | None \<Rightarrow> Task.completed (?ts ! nat ?idx))
         \<and> Task.priority t = (case TaskUpdateInput.priority updates of
                              Some v \<Rightarrow> v | None \<Rightarrow> Task.priority (?ts ! nat ?idx))
         \<and> Task.updatedAt t = clock_reads (ensureSeeded_tasks w) 0
         \<and> (updates = update_completed \<longrightarrow>
               t = (?ts ! nat ?idx)\<lparr>Task.completed := True,
                         Task.updatedAt := clock_reads (ensureSeeded_tasks w) 0\<rparr>)"
      by (subst d(3))+ (auto simp: update_completed_def split: option.splits)
    have slot: "\<exists>k. k < length ?ts
                \<and> ?ts ! k = ?ts ! nat ?idx
                \<and> (\<forall>j<k. Task.id (?ts ! j) \<noteq> i)
                \<and> TASKS_CACHE w' = Some (?ts[k := t])
                \<and> tasks_file w' = Some (?ts[k := t])"
      using findIndex_range[OF d(2)] findIndex_first[OF d(2)] d(4,5) by blast
    show ?thesis using f rest slot by blast
  qed
  have succ: "\<exists>r v. updateTask i updates w = (Inr r, v)"
    if "find (\<lambda>x. Task.id x = i) ?ts \<noteq> None"
      and "\<not> random_draws (ensureSeeded_tasks w) 1 < 0.12"
    using that updateTask_succeeds[of w i updates] by (simp add: findIndex_find split: if_splits)
  show ?thesis using fields succ by blast
qed

text \<open>An instance: task \<open>T00001\<close> completed, once with the bare payload and once with
  a blank title added.\<close>

theorem update_task_fields_witness:
  "fst (updateTask ''T00001'' update_completed (example_world (\<lambda>n. 0.99)))
     = Inr (task_call\<lparr>Task.completed := True, Task.updatedAt := 10000\<rparr>)
   \<and> find (\<lambda>x. Task.id x = ''T00001'') [task_call, task_mail] = Some task_call
   \<and> TASKS_CACHE (snd (updateTask ''T00001'' update_completed (example_world (\<lambda>n. 0.99))))
       = Some [task_call\<lparr>Task.completed := True, Task.updatedAt := 10000\<rparr>, task_mail]
   \<and> tasks_file (snd (updateTask ''T00001'' update_completed (example_world (\<lambda>n. 0.99))))
       = Some [task_call\<lparr>Task.completed := True, Task.updatedAt := 10000\<rparr>, task_mail]
   \<and> fst (updateTask ''T00001'' (update_completed\<lparr>TaskUpdateInput.title := Some ''  ''\<rparr>)
            (example_world (\<lambda>n. 0.99)))
     = Inr (task_call\<lparr>Task.completed := True, Task.updatedAt := 10000\<rparr>)
   \<and> Task.title (task_call\<lparr>Task.completed := True, Task.updatedAt := 10000\<rparr>) = ''Call''
   \<and> (\<exists>r v. updateTask ''T00001'' (update_completed\<lparr>TaskUpdateInput.title := Some ''  ''\<rparr>)
                (example_world (\<lambda>n. 0.99)) = (Inr r, v))"
proof -
  let ?w = "example_world (\<lambda>n. 0.99)"
  let ?t = "task_call\<lparr>Task.completed := True, Task.updatedAt := 10000\<rparr>"
  let ?u = "update_completed\<lparr>TaskUpdateInput.title := Some ''  ''\<rparr>"
  have r1: "fst (updateTask ''T00001'' update_completed ?w) = Inr ?t"
    by (rule example_updateTask) simp
  have r2: "fst (updateTask ''T00001'' ?u ?w) = Inr ?t"
    by (rule example_updateTask_blank_title) simp
  have f: "find (\<lambda>x. Task.id x = ''T00001'') [task_call, task_mail] = Some task_call"
    by (simp add: example_task_ids)
  note law1 = update_task_fields[of "''T00001''" update_completed ?w ?t
      "snd (updateTask ''T00001'' update_completed ?w)"]
  from law1 run_pair[OF r1]
  have "\<exists>prev. find (\<lambda>x. Task.id x = ''T00001'') (tasks_of (ensureSeeded_tasks ?w)) = Some prev
          \<and> ?t = prev\<lparr>Task.completed := True,
                        Task.updatedAt := clock_reads (ensureSeeded_tasks ?w) 0\<rparr>"
    by blast
  from law1 run_pair[OF r1]
  have "\<exists>k. (\<forall>j<k. Task.id (tasks_of (ensureSeeded_tasks ?w) ! j) \<noteq> ''T00001'')
          \<and> TASKS_CACHE (snd (updateTask ''T00001'' update_completed ?w))
                = Some ((tasks_of (ensureSeeded_tasks ?w))[k := ?t])
          \<and> tasks_file (snd (updateTask ''T00001'' update_completed ?w))
                = Some ((tasks_of (ensureSeeded_tasks ?w))[k := ?t])"
    by blast
  then obtain k where first: "\<forall>j<k. Task.id ([task_call, task_mail] ! j) \<noteq> ''T00001''"
    and cache: "TASKS_CACHE (snd (updateTask ''T00001'' update_completed ?w))
                = Some ([task_call, task_mail][k := ?t])"
    and disk: "tasks_file (snd (updateTask ''T00001'' update_completed ?w))
                = Some ([task_call, task_mail][k := ?t])"
    by (auto simp: example_seeded_tasks example_tasks_of)
  have k0: "k = 0"
  proof (rule ccontr)
    assume "k \<noteq> 0"
    then have "Task.id ([task_call, task_mail] ! 0) \<noteq> ''T00001''" using first by blast
    then show False by (simp add: example_task_ids)
  qed
  have st: "TASKS_CACHE (snd (updateTask ''T00001'' update_completed ?w)) = Some [?t, task_mail]"
    "tasks_file (snd (updateTask ''T00001'' update_completed ?w)) = Some [?t, task_mail]"
    using cache disk by (simp_all add: k0)
  note law2 = update_task_fields[of "''T00001''" ?u ?w ?t "snd (updateTask ''T00001'' ?u ?w)"]
  from law2 run_pair[OF r2]
  have "\<exists>prev. find (\<lambda>x. Task.id x = ''T00001'') (tasks_of (ensureSeeded_tasks ?w)) = Some prev
          \<and> Task.title ?t = (case TaskUpdateInput.title ?u of
                              Some v \<Rightarrow> (if trim v = [] then Task.title prev else trim v)
                            | None \<Rightarrow> Task.title prev)"
    by blast
  then have ti: "Task.title ?t = ''Call''"
    by (simp add: example_seeded_tasks example_tasks_of example_task_ids task_call_def)
  have "find (\<lambda>x. Task.id x = ''T00001'') (tasks_of (ensureSeeded_tasks ?w)) \<noteq> None
        \<and> \<not> random_draws (ensureSeeded_tasks ?w) 1 < 0.12"
    by (simp add: example_seeded_tasks example_tasks_of example_task_ids example_fields)
  with law2 have ex: "\<exists>r v. updateTask ''T00001'' ?u ?w = (Inr r, v)"
    by blast
  show ?thesis using r1 r2 f ti ex st by blast
qed

section \<open>The contact check of createTask\<close>

text \<open>
  Claim C10. Whatever error \<open>getContact\<close> raises, \<open>createTask\<close> raises
  \<open>ValidationError: contact does not exist\<close> and the task collection stays as it was;
  no error of \<open>createTask\<close> is a \<open>NotFoundError\<close>; and when the random draw of
  \<open>getContact\<close> is below 0.05 the call ends with that validation error, whether or not
  the contact exists and the title is valid.
\<close>

theorem createTask_contact_check:
  "(getContact (TaskCreateInput.contactId input) (ensureSeeded_tasks w) = (Inl e, v) \<longrightarrow>
      createTask input w = (Inl ''ValidationError: contact does not exist'', v)
      \<and> TASKS_CACHE v = TASKS_CACHE (ensureSeeded_tasks w)
      \<and> tasks_file v = tasks_file (ensureSeeded_tasks w))
   \<and> (createTask input w = (Inl e', v') \<longrightarrow> \<not> startsWith e' ''NotFoundError'')
   \<and> (random_draws (ensureSeeded_contacts (ensureSeeded_tasks w)) 1 < 0.05 \<longrightarrow>
      fst (createTask input w) = Inl ''ValidationError: contact does not exist''
      \<and> TASKS_CACHE (snd (createTask input w)) = TASKS_CACHE (ensureSeeded_tasks w)
      \<and> tasks_file (snd (createTask input w)) = tasks_file (ensureSeeded_tasks w))"
proof -
  have a: "createTask input w = (Inl ''ValidationError: contact does not exist'', v)
      \<and> TASKS_CACHE v = TASKS_CACHE (ensureSeeded_tasks w)
      \<and> tasks_file v = tasks_file (ensureSeeded_tasks w)"
    if g: "getContact (TaskCreateInput.contactId input) (ensureSeeded_tasks w) = (Inl e, v)"
    for e v
    using createTask_contact_failure[OF g] getContact_frame[OF g] by simp
  have b: "\<not> startsWith e' ''NotFoundError''"
    if run: "createTask input w = (Inl e', v')"
    using createTask_Inl_message[OF run] by (auto simp: startsWith_def)
  have c: "fst (createTask input w) = Inl ''ValidationError: contact does not exist''
      \<and> TASKS_CACHE (snd (createTask input w)) = TASKS_CACHE (ensureSeeded_tasks w)
      \<and> tasks_file (snd (createTask input w)) = tasks_file (ensureSeeded_tasks w)"
    if d: "random_draws (ensureSeeded_contacts (ensureSeeded_tasks w)) 1 < 0.05"
  proof -
    obtain u where "getContact (TaskCreateInput.contactId input) (ensureSeeded_tasks w)
        = (Inl ''TransientError: simulated network failure'', u)"
      using getContact_transient[OF d] by blast
    from a[OF this] show ?thesis by simp
  qed
  show ?thesis using a b c by blast
qed

text \<open>An instance: every draw 0.01, the contact \<open>C00001\<close> stored and the title
  valid.\<close>

theorem createTask_contact_check_witness:
  "find (\<lambda>x. Contact.id x = TaskCreateInput.contactId input_callback)
       (contacts_of (example_world (\<lambda>n. 0.01))) = Some contact_ada
   \<and> trim (TaskCreateInput.title input_callback) = ''Call back''
   \<and> getContact (TaskCreateInput.contactId input_callback)
        (ensureSeeded_tasks (example_world (\<lambda>n. 0.01)))
       = (Inl ''TransientError: simulated network failure'', example_world (\<lambda>n. 0.01))
   \<and> createTask input_callback (example_world (\<lambda>n. 0.01))
       = (Inl ''ValidationError: contact does not exist'', example_world (\<lambda>n. 0.01))
   \<and> \<not> startsWith ''ValidationError: contact does not exist'' ''NotFoundError''
   \<and> TASKS_CACHE (example_world (\<lambda>n. 0.01)) = Some [task_call, task_mail]
   \<and> tasks_file (example_world (\<lambda>n. 0.01)) = Some [task_call, task_mail]"
proof -
  let ?w = "example_world (\<lambda>n. 0.01)"
  have f: "find (\<lambda>x. Contact.id x = TaskCreateInput.contactId input_callback) (contacts_of ?w)
      = Some contact_ada"
    by (simp add: example_contacts_of input_callback_def contact_cy_def contact_bob_def
        contact_ada_def)
  have tr: "trim (TaskCreateInput.title input_callback) = ''Call back''"
    by (simp add: input_callback_def trim_def isWhiteSpace_def)
  have g: "getContact (TaskCreateInput.contactId input_callback) (ensureSeeded_tasks ?w)
       = (Inl ''TransientError: simulated network failure'', ?w)"
    using example_getContact_transient[of "\<lambda>n. 0.01" "TaskCreateInput.contactId input_callback"]
    by (simp add: example_seeded_tasks)
  note law = createTask_contact_check[of input_callback ?w
      "''TransientError: simulated network failure''" ?w
      "''ValidationError: contact does not exist''" ?w]
  from law g have run: "createTask input_callback ?w
       = (Inl ''ValidationError: contact does not exist'', ?w)"
    by blast
  with law have nf: "\<not> startsWith ''ValidationError: contact does not exist'' ''NotFoundError''"
    by blast
  have d: "random_draws (ensureSeeded_contacts (ensureSeeded_tasks ?w)) 1 < 0.05"
    by (simp add: example_seeded_tasks example_seeded_contacts example_fields)
  with law have "TASKS_CACHE (snd (createTask input_callback ?w)) = TASKS_CACHE (ensureSeeded_tasks ?w)
      \<and> tasks_file (snd (createTask input_callback ?w)) = tasks_file (ensureSeeded_tasks ?w)"
    by blast
  then have st: "TASKS_CACHE ?w = Some [task_call, task_mail]
      \<and> tasks_file ?w = Some [task_call, task_mail]"
    by (simp add: run example_seeded_tasks example_fields)
  show ?thesis using f tr g run nf st by blast
qed

section \<open>Simulated failures of the task writes\<close>

text \<open>
  Claim C4, amended. In \<open>createTask\<close>, \<open>updateTask\<close> and \<open>deleteTask\<close> the simulated
  failure is drawn before the mutation is attempted: a call that raises a
  \<open>TransientError\<close> leaves the cached and the persisted task collection as they were
  (after seeding), so a failed call has not been applied.
\<close>

theorem transient_failure_leaves_tasks:
  "(createTask input w = (Inl e, w') \<and> startsWith e ''TransientError'' \<longrightarrow>
      TASKS_CACHE w' = TASKS_CACHE (ensureSeeded_tasks w)
      \<and> tasks_file w' = tasks_file (ensureSeeded_tasks w))
   \<and> (updateTask i updates uw = (Inl ue, uw') \<and> startsWith ue ''TransientError'' \<longrightarrow>
      TASKS_CACHE uw' = TASKS_CACHE (ensureSeeded_tasks uw)
      \<and> tasks_file uw' = tasks_file (ensureSeeded_tasks uw))
   \<and> (deleteTask j dw = (Inl de, dw') \<and> startsWith de ''TransientError'' \<longrightarrow>
      TASKS_CACHE dw' = TASKS_CACHE (ensureSeeded_tasks dw)
      \<and> tasks_file dw' = tasks_file (ensureSeeded_tasks dw))"
  using createTask_Inl_frame[of input w e w'] updateTask_Inl_frame[of i updates uw ue uw']
    deleteTask_Inl_frame[of j dw de dw']
  by blast

text \<open>An instance: every draw 0.1, so that \<open>getContact\<close> passes and each of the three
  writes fails.\<close>

theorem transient_failure_leaves_tasks_witness:
  "fst (createTask input_callback (example_world (\<lambda>n. 0.1)))
      = Inl ''TransientError: simulate mutation failure''
   \<and> fst (updateTask ''T00001'' update_completed (example_world (\<lambda>n. 0.1)))
      = Inl ''TransientError: simulate mutation failure''
   \<and> fst (deleteTask ''T00001'' (example_world (\<lambda>n. 0.1)))
      = Inl ''TransientError: simulate mutation failure''
   \<and> startsWith ''TransientError: simulate mutation failure'' ''TransientError''
   \<and> TASKS_CACHE (snd (createTask input_callback (example_world (\<lambda>n. 0.1))))
      = Some [task_call, task_mail]
   \<and> tasks_file (snd (createTask input_callback (example_world (\<lambda>n. 0.1))))
      = Some [task_call, task_mail]
   \<and> TASKS_CACHE (snd (updateTask ''T00001'' update_completed (example_world (\<lambda>n. 0.1))))
      = Some [task_call, task_mail]
   \<and> tasks_file (snd (updateTask ''T00001'' update_completed (example_world (\<lambda>n. 0.1))))
      = Some [task_call, task_mail]
   \<and> TASKS_CACHE (snd (deleteTask ''T00001'' (example_world (\<lambda>n. 0.1))))
      = Some [task_call, task_mail]
   \<and> tasks_file (snd (deleteTask ''T00001'' (example_world (\<lambda>n. 0.1))))
      = Some [task_call, task_mail]"
proof -
  let ?w = "example_world (\<lambda>n. 0.1)"
  let ?e = "''TransientError: simulate mutation failure''"
  have c: "fst (createTask input_callback ?w) = Inl ?e"
    by (rule example_createTask_transient) simp_all
  have u: "fst (updateTask ''T00001'' update_completed ?w) = Inl ?e"
    by (rule example_updateTask_transient) simp
  have d: "fst (deleteTask ''T00001'' ?w) = Inl ?e"
    by (rule example_deleteTask_transient) simp
  have s: "startsWith ?e ''TransientError''"
    by (simp add: startsWith_def)
  have pc: "createTask input_callback ?w = (Inl ?e, snd (createTask input_callback ?w))"
    using c by (cases "createTask input_callback ?w") simp
  have pu: "updateTask ''T00001'' update_completed ?w
      = (Inl ?e, snd (updateTask ''T00001'' update_completed ?w))"
    using u by (cases "updateTask ''T00001'' update_completed ?w") simp
  have pd: "deleteTask ''T00001'' ?w = (Inl ?e, snd (deleteTask ''T00001'' ?w))"
    using d by (cases "deleteTask ''T00001'' ?w") simp
  note law = transient_failure_leaves_tasks[of input_callback ?w ?e
      "snd (createTask input_callback ?w)" "''T00001''" update_completed ?w ?e
      "snd (updateTask ''T00001'' update_completed ?w)" "''T00001''" ?w ?e
      "snd (deleteTask ''T00001'' ?w)"]
  from law pc pu pd s
  have "TASKS_CACHE (snd (createTask input_callback ?w)) = TASKS_CACHE (ensureSeeded_tasks ?w)
      \<and> tasks_file (snd (createTask input_callback ?w)) = tasks_file (ensureSeeded_tasks ?w)
      \<and> TASKS_CACHE (snd (updateTask ''T00001'' update_completed ?w)) = TASKS_CACHE (ensureSeeded_tasks ?w)
      \<and> tasks_file (snd (updateTask ''T00001'' update_completed ?w)) = tasks_file (ensureSeeded_tasks ?w)
      \<and> TASKS_CACHE (snd (deleteTask ''T00001'' ?w)) = TASKS_CACHE (ensureSeeded_tasks ?w)
      \<and> tasks_file (snd (deleteTask ''T00001'' ?w)) = tasks_file (ensureSeeded_tasks ?w)"
    by blast
  then show ?thesis using c u d s
    by (simp add: example_seeded_tasks example_fields)
qed

text \<open>As stated the claim fails: no call of the three that raises a \<open>TransientError\<close>
  has changed the cached or the persisted task collection.\<close>

theorem transient_failure_after_mutation_counterexample:
  "\<not> (\<exists>input w e w'. createTask input w = (Inl e, w') \<and> startsWith e ''TransientError''
          \<and> (TASKS_CACHE w' \<noteq> TASKS_CACHE (ensureSeeded_tasks w)
               \<or> tasks_file w' \<noteq> tasks_file (ensureSeeded_tasks w)))
   \<and> \<not> (\<exists>i updates w e w'. updateTask i updates w = (Inl e, w') \<and> startsWith e ''TransientError''
          \<and> (TASKS_CACHE w' \<noteq> TASKS_CACHE (ensureSeeded_tasks w)
               \<or> tasks_file w' \<noteq> tasks_file (ensureSeeded_tasks w)))
   \<and> \<not> (\<exists>i w e w'. deleteTask i w = (Inl e, w') \<and> startsWith e ''TransientError''
          \<and> (TASKS_CACHE w' \<noteq> TASKS_CACHE (ensureSeeded_tasks w)
               \<or> tasks_file w' \<noteq> tasks_file (ensureSeeded_tasks w)))"
  using createTask_Inl_frame updateTask_Inl_frame deleteTask_Inl_frame
  by blast

section \<open>Facts about deleting in the example state, and a long title\<close>

lemma example_contact_ids:
  "Contact.id contact_cy = ''C00003''" "Contact.id contact_bob = ''C00002''"
  "Contact.id contact_ada = ''C00001''"
  by (simp_all add: contact_cy_def contact_bob_def contact_ada_def)

lemma example_deleteContact:
  "deleteContact ''C00001'' (example_world rs)
     = (Inr True,
        (example_world rs)\<lparr>CONTACTS_CACHE := Some [contact_cy, contact_bob],
           contacts_file := Some [contact_cy, contact_bob],
           tasks_file := Some [task_mail]\<rparr>)"
  by (simp add: deleteContact_eq example_seeded_contacts example_contacts_of example_fields
      example_contact_ids splice1_def task_call_def task_mail_def Let_def)

lemma dropWhile_replicate:
  "\<not> P a \<Longrightarrow> dropWhile P (replicate n a) = replicate n a"
  by (cases n) simp_all

lemma trim_replicate:
  "\<not> isWhiteSpace a \<Longrightarrow> trim (replicate n a) = replicate n a"
  by (simp add: trim_def dropWhile_replicate)

lemma trim_long_title: "trim long_title = long_title"
  unfolding long_title_def by (rule trim_replicate) (simp add: isWhiteSpace_def)

lemma length_long_title: "length long_title = 121"
  by (simp add: long_title_def)

section \<open>Deleting a contact\<close>

text \<open>
  Claim C3 at one input. In the example state the task cache holds a task of contact
  \<open>C00001\<close>. Deleting that contact succeeds, a following \<open>getContact\<close> raises
  \<open>NotFoundError\<close> and the task file no longer holds the contact's task; the task
  cache still does, and a following \<open>listTasks\<close> for the contact returns it.
\<close>

theorem deleteContact_leaves_cached_tasks:
  "fst (deleteContact ''C00001'' (example_world (\<lambda>n. 0.99))) = Inr True
   \<and> fst (getContact ''C00001'' (snd (deleteContact ''C00001'' (example_world (\<lambda>n. 0.99)))))
       = Inl ''NotFoundError: contact not found''
   \<and> tasks_file (snd (deleteContact ''C00001'' (example_world (\<lambda>n. 0.99)))) = Some [task_mail]
   \<and> TASKS_CACHE (snd (deleteContact ''C00001'' (example_world (\<lambda>n. 0.99))))
       = Some [task_call, task_mail]
   \<and> fst (listTasks codeUnitCompare tasks_of_ada
            (snd (deleteContact ''C00001'' (example_world (\<lambda>n. 0.99)))))
       = Inr \<lparr>TaskListResult.data = [task_call], total = 1, page = 1, pageSize = 50,
              hasNext = False\<rparr>"
proof -
  let ?w = "example_world (\<lambda>n. 0.99)"
  let ?v = "?w\<lparr>CONTACTS_CACHE := Some [contact_cy, contact_bob],
           contacts_file := Some [contact_cy, contact_bob],
           tasks_file := Some [task_mail]\<rparr>"
  have d: "deleteContact ''C00001'' ?w = (Inr True, ?v)"
    by (rule example_deleteContact)
  have g: "fst (getContact ''C00001'' ?v) = Inl ''NotFoundError: contact not found''"
    by (simp add: getContact_eq ensureSeeded_contacts_def contacts_of_def example_fields
        example_contact_ids Let_def)
  have l: "fst (listTasks codeUnitCompare tasks_of_ada ?v)
       = Inr \<lparr>TaskListResult.data = [task_call], total = 1, page = 1, pageSize = 50,
              hasNext = False\<rparr>"
    by code_simp
  show ?thesis
    unfolding d using g l by (simp add: example_fields)
qed

section \<open>The length of a stored title\<close>

text \<open>
  Claim C9 at one input. \<open>updateTask\<close> with a title of 121 characters stores it, in
  the cache and in the file, while \<open>createTask\<close> rejects the same title as too long.
\<close>

theorem updateTask_stores_long_title:
  "fst (updateTask ''T00001'' (update_completed\<lparr>TaskUpdateInput.title := Some long_title\<rparr>)
          (example_world (\<lambda>n. 0.99)))
     = Inr (task_call\<lparr>Task.title := long_title, Task.completed := True,
                       Task.updatedAt := 10000\<rparr>)
   \<and> TASKS_CACHE (snd (updateTask ''T00001''
          (update_completed\<lparr>TaskUpdateInput.title := Some long_title\<rparr>)
          (example_world (\<lambda>n. 0.99))))
     = Some [task_call\<lparr>Task.title := long_title, Task.completed := True,
                       Task.updatedAt := 10000\<rparr>, task_mail]
   \<and> tasks_file (snd (updateTask ''T00001''
          (update_completed\<lparr>TaskUpdateInput.title := Some long_title\<rparr>)
          (example_world (\<lambda>n. 0.99))))
     = Some [task_call\<lparr>Task.title := long_title, Task.completed := True,
                       Task.updatedAt := 10000\<rparr>, task_mail]
   \<and> length (trim long_title) = 121
   \<and> fst (createTask (input_callback\<lparr>TaskCreateInput.title := long_title\<rparr>)
            (example_world (\<lambda>n. 0.99)))
     = Inl ''ValidationError: title too long''"
proof -
  let ?w = "example_world (\<lambda>n. 0.99)"
  let ?u = "update_completed\<lparr>TaskUpdateInput.title := Some long_title\<rparr>"
  let ?t = "task_call\<lparr>Task.title := long_title, Task.completed := True,
                       Task.updatedAt := 10000\<rparr>"
  have ne: "long_title \<noteq> []"
    using length_long_title by auto
  have u: "updateTask ''T00001'' ?u ?w
       = (Inr ?t, (example_world (\<lambda>n. 0.99))\<lparr>clock_reads := (\<lambda>n. 10000 + int (Suc n)),
             TASKS_CACHE := Some [?t, task_mail], tasks_file := Some [?t, task_mail]\<rparr>)"
    using ne
    by (simp add: updateTask_eq example_seeded_tasks example_tasks_of example_fields
        example_redraw example_task_ids update_completed_def trim_long_title Let_def)
  have g: "getContact (TaskCreateInput.contactId (input_callback\<lparr>TaskCreateInput.title := long_title\<rparr>))
       (ensureSeeded_tasks ?w)
     = (Inr contact_ada, example_world (\<lambda>n. 0.99))"
    using example_getContact[of "\<lambda>n. 0.99"]
    by (simp add: input_callback_def example_seeded_tasks)
  have c: "fst (createTask (input_callback\<lparr>TaskCreateInput.title := long_title\<rparr>) ?w)
     = Inl ''ValidationError: title too long''"
    unfolding createTask_eq[OF g] using ne
    by (simp add: trim_long_title length_long_title)
  show ?thesis
    unfolding u using c by (simp add: trim_long_title length_long_title)
qed

end
